theory Spec2Isabelle
  imports Main
begin

section \<open>JSON values and the Python operations applied to them\<close>

text \<open>
  The service (\<^verbatim>\<open>github_api.py\<close>) reads the bodies of upstream responses with
  \<^verbatim>\<open>response.json()\<close> and builds its answers as Python dictionaries. Both sides are
  JSON values. An object is an association list in insertion order; its keys are
  distinct, as in a parsed dictionary (were a key repeated, its first entry would be the
  one read). Numbers are the integers (the counters and identifiers of the provider);
  floating point numbers are not modelled. A string is a list of characters, each
  standing for one ASCII code point; \<^verbatim>\<open>str.lower\<close> and \<^verbatim>\<open>repr\<close> on other code points
  are not modelled.
\<close>

datatype json =
    JNull
  | JBool bool
  | JInt int
  | JStr string
  | JArr "json list"
  | JObj "(string \<times> json) list"

text \<open>
  The exceptions that the code under study can raise: a missing key under \<^verbatim>\<open>d[k]\<close>, an
  operation on a value of the wrong type, a method that the value does not have, a body
  that is not JSON, and a failure of the transport (\<^verbatim>\<open>httpx.RequestError\<close>).
\<close>

datatype py_error =
    KeyError string
  | TypeError
  | AttributeError
  | JSONDecodeError
  | RequestError

definition bind_e :: "py_error + 'a \<Rightarrow> ('a \<Rightarrow> py_error + 'b) \<Rightarrow> py_error + 'b" where
  "bind_e m f = (case m of Inl x \<Rightarrow> Inl x | Inr v \<Rightarrow> f v)"

text \<open>\<^verbatim>\<open>x[k]\<close> with a string key: only a dictionary can be indexed by a string.\<close>

fun py_getitem :: "json \<Rightarrow> string \<Rightarrow> py_error + json" where
  "py_getitem (JObj kvs) k = (case map_of kvs k of None \<Rightarrow> Inl (KeyError k) | Some v \<Rightarrow> Inr v)"
| "py_getitem _ k = Inl TypeError"

definition getitem_e :: "py_error + json \<Rightarrow> string \<Rightarrow> py_error + json" where
  "getitem_e m k = bind_e m (\<lambda>v. py_getitem v k)"

text \<open>\<^verbatim>\<open>x.get(k, d)\<close>: a method of dictionaries only.\<close>

fun py_get :: "json \<Rightarrow> string \<Rightarrow> json \<Rightarrow> py_error + json" where
  "py_get (JObj kvs) k d = Inr (case map_of kvs k of None \<Rightarrow> d | Some v \<Rightarrow> v)"
| "py_get _ k d = Inl AttributeError"

text \<open>Truth value of a JSON value, as \<^verbatim>\<open>if x\<close> tests it.\<close>

fun py_bool :: "json \<Rightarrow> bool" where
  "py_bool JNull = False"
| "py_bool (JBool b) = b"
| "py_bool (JInt i) = (i \<noteq> 0)"
| "py_bool (JStr s) = (s \<noteq> [])"
| "py_bool (JArr xs) = (xs \<noteq> [])"
| "py_bool (JObj kvs) = (kvs \<noteq> [])"

text \<open>
  \<^verbatim>\<open>for v in x\<close>: a list yields its elements, a string its characters, a dictionary its
  keys; nothing else is iterable.
\<close>

fun py_iter :: "json \<Rightarrow> py_error + json list" where
  "py_iter (JArr xs) = Inr xs"
| "py_iter (JStr s) = Inr (map (\<lambda>c. JStr [c]) s)"
| "py_iter (JObj kvs) = Inr (map (\<lambda>kv. JStr (fst kv)) kvs)"
| "py_iter _ = Inl TypeError"

text \<open>
  \<^verbatim>\<open>x[:n]\<close>: lists and strings are sliced; a dictionary rejects a slice as a key (an
  unhashable key before Python 3.12), the other values are not subscriptable.
\<close>

fun py_slice :: "nat \<Rightarrow> json \<Rightarrow> py_error + json" where
  "py_slice n (JArr xs) = Inr (JArr (take n xs))"
| "py_slice n (JStr s) = Inr (JStr (take n s))"
| "py_slice n _ = Inl TypeError"

fun py_len :: "json \<Rightarrow> py_error + json" where
  "py_len (JArr xs) = Inr (JInt (int (length xs)))"
| "py_len (JStr s) = Inr (JInt (int (length s)))"
| "py_len (JObj kvs) = Inr (JInt (int (length kvs)))"
| "py_len _ = Inl TypeError"

text \<open>\<^verbatim>\<open>w in s\<close> on two strings: \<open>w\<close> occurs in \<open>s\<close> as a contiguous segment.\<close>

fun py_contains :: "string \<Rightarrow> string \<Rightarrow> bool" where
  "py_contains w [] = (w = [])"
| "py_contains w (c # cs) = (take (length w) (c # cs) = w \<or> py_contains w cs)"

text \<open>
  \<^verbatim>\<open>k in x\<close> with a string \<open>k\<close>: a key of a dictionary, an element of a list, a segment of
  a string.
\<close>

fun py_in :: "string \<Rightarrow> json \<Rightarrow> py_error + bool" where
  "py_in k (JObj kvs) = Inr (k \<in> set (map fst kvs))"
| "py_in k (JArr xs) = Inr (JStr k \<in> set xs)"
| "py_in k (JStr s) = Inr (py_contains k s)"
| "py_in k _ = Inl TypeError"

definition py_lower_char :: "char \<Rightarrow> char" where
  "py_lower_char c =
     (case map_of (zip ''ABCDEFGHIJKLMNOPQRSTUVWXYZ'' ''abcdefghijklmnopqrstuvwxyz'') c of
        None \<Rightarrow> c
      | Some d \<Rightarrow> d)"

text \<open>\<^verbatim>\<open>x.lower()\<close>: a method of strings only.\<close>

fun py_lower :: "json \<Rightarrow> py_error + string" where
  "py_lower (JStr s) = Inr (map py_lower_char s)"
| "py_lower _ = Inl AttributeError"

text \<open>
  One step of \<^verbatim>\<open>sum\<close>: the running total plus the next value. Booleans count as 0 and 1;
  adding anything else to an integer is a \<^verbatim>\<open>TypeError\<close>.
\<close>

fun py_add :: "int \<Rightarrow> json \<Rightarrow> py_error + int" where
  "py_add a (JInt i) = Inr (a + i)"
| "py_add a (JBool b) = Inr (a + (if b then 1 else 0))"
| "py_add a _ = Inl TypeError"

subsection \<open>\<^verbatim>\<open>str\<close> and \<^verbatim>\<open>repr\<close>\<close>

fun dec_digits :: "nat \<Rightarrow> string" where
  "dec_digits n =
     (if n < 10 then [''0123456789'' ! n]
      else dec_digits (n div 10) @ [''0123456789'' ! (n mod 10)])"

declare dec_digits.simps [simp del]

definition py_str_int :: "int \<Rightarrow> string" where
  "py_str_int i = (if i < 0 then ''-'' @ dec_digits (nat (- i)) else dec_digits (nat i))"

definition hex2 :: "nat \<Rightarrow> string" where
  "hex2 n = [''0123456789abcdef'' ! (n div 16), ''0123456789abcdef'' ! (n mod 16)]"

text \<open>
  One character inside the quotes \<open>q\<close> of a \<^verbatim>\<open>repr\<close>: the quote and the backslash are
  escaped, tab, newline and carriage return have their letters, the other control
  characters are written in hexadecimal.
\<close>

definition repr_char :: "char \<Rightarrow> char \<Rightarrow> string" where
  "repr_char q c =
     (if c = q \<or> c = CHR 0x5C then [CHR 0x5C, c]
      else if c = CHR 0x09 then [CHR 0x5C, CHR ''t'']
      else if c = CHR 0x0A then [CHR 0x5C, CHR ''n'']
      else if c = CHR 0x0D then [CHR 0x5C, CHR ''r'']
      else if (of_char c :: nat) < 32 \<or> (of_char c :: nat) = 127
        then [CHR 0x5C, CHR ''x''] @ hex2 (of_char c)
      else [c])"

text \<open>
  Single quotes, unless the string holds a single quote and no double quote.
\<close>

definition py_repr_str :: "string \<Rightarrow> string" where
  "py_repr_str s =
     (let q = (if CHR 0x27 \<in> set s \<and> CHR 0x22 \<notin> set s then CHR 0x22 else CHR 0x27)
      in [q] @ concat (map (repr_char q) s) @ [q])"

fun py_join :: "string \<Rightarrow> string list \<Rightarrow> string" where
  "py_join sep [] = []"
| "py_join sep [x] = x"
| "py_join sep (x # y # ys) = x @ sep @ py_join sep (y # ys)"

primrec py_repr :: "json \<Rightarrow> string" where
  "py_repr JNull = ''None''"
| "py_repr (JBool b) = (if b then ''True'' else ''False'')"
| "py_repr (JInt i) = py_str_int i"
| "py_repr (JStr s) = py_repr_str s"
| "py_repr (JArr xs) = ''['' @ py_join '', '' (map py_repr xs) @ '']''"
| "py_repr (JObj kvs) =
     ''{'' @ py_join '', ''
        (map (\<lambda>kv. py_repr_str (fst kv) @ '': '' @ snd kv) (map (map_prod id py_repr) kvs))
      @ ''}''"

text \<open>\<^verbatim>\<open>str(x)\<close>, also what an f-string writes for \<open>x\<close>: a string is itself.\<close>

definition py_str :: "json \<Rightarrow> string" where
  "py_str v = (case v of JStr s \<Rightarrow> s | _ \<Rightarrow> py_repr v)"

subsection \<open>Dictionary displays, comprehensions and generators\<close>

text \<open>
  A dictionary display \<^verbatim>\<open>{k1: e1, k2: e2, ...}\<close> evaluates its entries from left to right;
  the first entry that raises ends the evaluation.
\<close>

fun py_dict_items :: "(string \<times> (py_error + json)) list \<Rightarrow> py_error + (string \<times> json) list" where
  "py_dict_items [] = Inr []"
| "py_dict_items ((k, m) # rest) =
     (case m of
        Inl x \<Rightarrow> Inl x
      | Inr v \<Rightarrow> (case py_dict_items rest of Inl x \<Rightarrow> Inl x | Inr kvs \<Rightarrow> Inr ((k, v) # kvs)))"

definition py_dict :: "(string \<times> (py_error + json)) list \<Rightarrow> py_error + json" where
  "py_dict items = (case py_dict_items items of Inl x \<Rightarrow> Inl x | Inr kvs \<Rightarrow> Inr (JObj kvs))"

text \<open>\<^verbatim>\<open>[f(v) for v in xs]\<close>: the first element on which \<open>f\<close> raises ends the comprehension.\<close>

fun map_e :: "('a \<Rightarrow> py_error + 'b) \<Rightarrow> 'a list \<Rightarrow> py_error + 'b list" where
  "map_e f [] = Inr []"
| "map_e f (x # xs) =
     (case f x of
        Inl e \<Rightarrow> Inl e
      | Inr y \<Rightarrow> (case map_e f xs of Inl e \<Rightarrow> Inl e | Inr ys \<Rightarrow> Inr (y # ys)))"

text \<open>\<^verbatim>\<open>[v[k] for v in x.get(field, [])]\<close>, the shape of every list field of a summary.\<close>

definition field_list :: "json \<Rightarrow> string \<Rightarrow> string \<Rightarrow> py_error + json" where
  "field_list x field k =
     bind_e (py_get x field (JArr [])) (\<lambda>vs.
     bind_e (py_iter vs) (\<lambda>xs.
     bind_e (map_e (\<lambda>v. py_getitem v k) xs) (\<lambda>ys. Inr (JArr ys))))"

text \<open>
  \<^verbatim>\<open>sum(v.get(k, 0) for v in xs)\<close>: the generator is consumed one element at a time, so
  the lookup in an element and its addition to the total come before the next lookup.
\<close>

fun sum_get :: "string \<Rightarrow> int \<Rightarrow> json list \<Rightarrow> py_error + int" where
  "sum_get k a [] = Inr a"
| "sum_get k a (v # vs) =
     bind_e (py_get v k (JInt 0)) (\<lambda>n. bind_e (py_add a n) (\<lambda>a'. sum_get k a' vs))"

text \<open>\<^verbatim>\<open>sum([v[k] for v in xs])\<close>: the list is built first, then added up.\<close>

fun sum_values :: "int \<Rightarrow> json list \<Rightarrow> py_error + int" where
  "sum_values a [] = Inr a"
| "sum_values a (v # vs) = bind_e (py_add a v) (\<lambda>a'. sum_values a' vs)"

text \<open>
  \<^verbatim>\<open>set(xs)\<close>: lists and dictionaries are unhashable; \<^verbatim>\<open>True\<close> and \<^verbatim>\<open>1\<close> (and
  \<^verbatim>\<open>False\<close> and \<^verbatim>\<open>0\<close>) are the same member. The result keeps the first occurrence of each
  member, in the order of insertion; the order in which Python enumerates a set is
  left to the environment (\<open>set_order\<close> below).
\<close>

fun py_hash_key :: "json \<Rightarrow> py_error + json" where
  "py_hash_key (JArr xs) = Inl TypeError"
| "py_hash_key (JObj kvs) = Inl TypeError"
| "py_hash_key (JBool b) = Inr (JInt (if b then 1 else 0))"
| "py_hash_key v = Inr v"

fun set_insert_all :: "json list \<Rightarrow> json list \<Rightarrow> json list \<Rightarrow> py_error + json list" where
  "set_insert_all keys members [] = Inr members"
| "set_insert_all keys members (v # vs) =
     bind_e (py_hash_key v) (\<lambda>k.
       if k \<in> set keys then set_insert_all keys members vs
       else set_insert_all (keys @ [k]) (members @ [v]) vs)"

definition py_set :: "json list \<Rightarrow> py_error + json list" where
  "py_set xs = set_insert_all [] [] xs"

section \<open>The entity translators\<close>

text \<open>
  Each translator is the dictionary display that the source builds from one upstream
  object. A field read with \<^verbatim>\<open>x[k]\<close> is required (a missing key raises \<^verbatim>\<open>KeyError\<close>); a
  field read with \<^verbatim>\<open>x.get(k, d)\<close> is optional and defaults to \<open>d\<close>.
\<close>

text \<open>The repository summary of \<^verbatim>\<open>get_repository_data\<close>.\<close>

definition repository_summary :: "json \<Rightarrow> py_error + json" where
  "repository_summary repo = py_dict
     [(''name'', py_getitem repo ''name''),
      (''description'', py_get repo ''description'' (JStr [])),
      (''language'', py_get repo ''language'' (JStr ''Unknown'')),
      (''stars'', py_getitem repo ''stargazers_count''),
      (''forks'', py_getitem repo ''forks_count''),
      (''url'', py_getitem repo ''html_url''),
      (''lastUpdated'', py_getitem repo ''updated_at'')]"

text \<open>
  \<^verbatim>\<open>commit["author"]["avatar_url"] if commit.get("author") else None\<close>
\<close>

definition commit_author_avatar :: "json \<Rightarrow> py_error + json" where
  "commit_author_avatar commit =
     bind_e (py_get commit ''author'' JNull) (\<lambda>a.
       if py_bool a then getitem_e (py_getitem commit ''author'') ''avatar_url''
       else Inr JNull)"

text \<open>\<^verbatim>\<open>sum(file.get(k, 0) for file in commit_detail.get("files", []))\<close>\<close>

definition detail_sum :: "json \<Rightarrow> string \<Rightarrow> py_error + json" where
  "detail_sum commit_detail k =
     bind_e (py_get commit_detail ''files'' (JArr [])) (\<lambda>files.
     bind_e (py_iter files) (\<lambda>fs.
     bind_e (sum_get k 0 fs) (\<lambda>n. Inr (JInt n))))"

text \<open>
  The commit summary of \<^verbatim>\<open>get_repository_commits\<close>. The source has two displays: one
  for a commit whose detail was fetched (\<open>Some commit_detail\<close>), one for the fallback
  (\<open>None\<close>).
\<close>

fun commit_summary :: "string \<Rightarrow> json \<Rightarrow> json option \<Rightarrow> py_error + json" where
  "commit_summary repo_name commit (Some commit_detail) = py_dict
     [(''id'', bind_e (py_getitem commit ''sha'') (py_slice 7)),
      (''message'', getitem_e (py_getitem commit ''commit'') ''message''),
      (''author'', getitem_e (getitem_e (py_getitem commit ''commit'') ''author'') ''name''),
      (''date'', getitem_e (getitem_e (py_getitem commit ''commit'') ''author'') ''date''),
      (''repository'', Inr (JStr repo_name)),
      (''url'', py_getitem commit ''html_url''),
      (''description'', getitem_e (py_getitem commit ''commit'') ''message''),
      (''files_changed'', bind_e (py_get commit_detail ''files'' (JArr [])) py_len),
      (''additions'', detail_sum commit_detail ''additions''),
      (''deletions'', detail_sum commit_detail ''deletions''),
      (''commit_url'', py_getitem commit ''html_url''),
      (''author_avatar'', commit_author_avatar commit)]"
| "commit_summary repo_name commit None = py_dict
     [(''id'', bind_e (py_getitem commit ''sha'') (py_slice 7)),
      (''message'', getitem_e (py_getitem commit ''commit'') ''message''),
      (''author'', getitem_e (getitem_e (py_getitem commit ''commit'') ''author'') ''name''),
      (''date'', getitem_e (getitem_e (py_getitem commit ''commit'') ''author'') ''date''),
      (''repository'', Inr (JStr repo_name)),
      (''url'', py_getitem commit ''html_url''),
      (''description'', getitem_e (py_getitem commit ''commit'') ''message''),
      (''files_changed'', Inr (JInt 0)),
      (''additions'', Inr (JInt 0)),
      (''deletions'', Inr (JInt 0)),
      (''commit_url'', py_getitem commit ''html_url''),
      (''author_avatar'', commit_author_avatar commit)]"

declare commit_summary.simps [simp del]

text \<open>\<^verbatim>\<open>str(x["number"])\<close>\<close>

definition number_str :: "json \<Rightarrow> py_error + json" where
  "number_str x = bind_e (py_getitem x ''number'') (\<lambda>n. Inr (JStr (py_str n)))"

text \<open>The pull-request summary of \<^verbatim>\<open>get_repository_pull_requests\<close>.\<close>

definition pull_request_summary :: "string \<Rightarrow> json \<Rightarrow> py_error + json" where
  "pull_request_summary repo_name pr = py_dict
     [(''id'', number_str pr),
      (''title'', py_getitem pr ''title''),
      (''author'', getitem_e (py_getitem pr ''user'') ''login''),
      (''status'', py_getitem pr ''state''),
      (''repository'', Inr (JStr repo_name)),
      (''url'', py_getitem pr ''html_url''),
      (''createdAt'', py_getitem pr ''created_at''),
      (''updatedAt'', py_getitem pr ''updated_at''),
      (''description'', py_get pr ''body'' (JStr [])),
      (''labels'', field_list pr ''labels'' ''name''),
      (''assignees'', field_list pr ''assignees'' ''login''),
      (''reviewers'', field_list pr ''requested_reviewers'' ''login''),
      (''comments'', py_get pr ''comments'' (JInt 0)),
      (''commits'', py_get pr ''commits'' (JInt 0)),
      (''additions'', py_get pr ''additions'' (JInt 0)),
      (''deletions'', py_get pr ''deletions'' (JInt 0)),
      (''changed_files'', py_get pr ''changed_files'' (JInt 0)),
      (''author_avatar'', getitem_e (py_getitem pr ''user'') ''avatar_url''),
      (''draft'', py_get pr ''draft'' (JBool False)),
      (''merged'', py_get pr ''merged'' (JBool False)),
      (''mergeable'', py_get pr ''mergeable'' JNull)]"

text \<open>
  \<^verbatim>\<open>any(w in label["name"].lower() for label in labels)\<close>: the generator stops at the
  first label that matches, so the labels after it are not read.
\<close>

fun any_label :: "string \<Rightarrow> json list \<Rightarrow> py_error + bool" where
  "any_label w [] = Inr False"
| "any_label w (label # labels) =
     bind_e (py_getitem label ''name'') (\<lambda>n.
     bind_e (py_lower n) (\<lambda>s.
       if py_contains w s then Inr True else any_label w labels))"

definition any_issue_label :: "string \<Rightarrow> json \<Rightarrow> py_error + bool" where
  "any_issue_label w issue =
     bind_e (py_get issue ''labels'' (JArr [])) (\<lambda>ls.
     bind_e (py_iter ls) (any_label w))"

text \<open>
  The priority of an issue: \<^verbatim>\<open>"medium"\<close>, replaced by \<^verbatim>\<open>"high"\<close> if a label matches
  \<^verbatim>\<open>"high"\<close>, else by \<^verbatim>\<open>"low"\<close> if a label matches \<^verbatim>\<open>"low"\<close>.
\<close>

definition issue_priority :: "json \<Rightarrow> py_error + string" where
  "issue_priority issue =
     bind_e (any_issue_label ''high'' issue) (\<lambda>h.
       if h then Inr ''high''
       else bind_e (any_issue_label ''low'' issue) (\<lambda>l.
         if l then Inr ''low'' else Inr ''medium''))"

text \<open>
  \<^verbatim>\<open>issue.get("milestone", {}).get("title") if issue.get("milestone") else None\<close>
\<close>

definition issue_milestone :: "json \<Rightarrow> py_error + json" where
  "issue_milestone issue =
     bind_e (py_get issue ''milestone'' JNull) (\<lambda>m.
       if py_bool m
       then bind_e (py_get issue ''milestone'' (JObj [])) (\<lambda>m'. py_get m' ''title'' JNull)
       else Inr JNull)"

text \<open>\<^verbatim>\<open>issue.get("reactions", {}).get(k, 0)\<close>\<close>

definition issue_reaction :: "json \<Rightarrow> string \<Rightarrow> py_error + json" where
  "issue_reaction issue k =
     bind_e (py_get issue ''reactions'' (JObj [])) (\<lambda>r. py_get r k (JInt 0))"

text \<open>
  The issue summary of \<^verbatim>\<open>get_repository_issues\<close>: the priority is computed first, then
  the display is built.
\<close>

definition issue_summary :: "string \<Rightarrow> json \<Rightarrow> py_error + json" where
  "issue_summary repo_name issue =
     bind_e (issue_priority issue) (\<lambda>priority. py_dict
       [(''id'', number_str issue),
        (''title'', py_getitem issue ''title''),
        (''author'', getitem_e (py_getitem issue ''user'') ''login''),
        (''status'', py_getitem issue ''state''),
        (''priority'', Inr (JStr priority)),
        (''repository'', Inr (JStr repo_name)),
        (''url'', py_getitem issue ''html_url''),
        (''createdAt'', py_getitem issue ''created_at''),
        (''updatedAt'', py_getitem issue ''updated_at''),
        (''description'', py_get issue ''body'' (JStr [])),
        (''labels'', field_list issue ''labels'' ''name''),
        (''assignees'', field_list issue ''assignees'' ''login''),
        (''comments'', py_get issue ''comments'' (JInt 0)),
        (''author_avatar'', getitem_e (py_getitem issue ''user'') ''avatar_url''),
        (''milestone'', issue_milestone issue),
        (''locked'', py_get issue ''locked'' (JBool False)),
        (''closed_at'', py_get issue ''closed_at'' JNull),
        (''reactions'', py_dict
           [(''total_count'', issue_reaction issue ''total_count''),
            (''thumbs_up'', issue_reaction issue ''+1''),
            (''thumbs_down'', issue_reaction issue ''-1''),
            (''laugh'', issue_reaction issue ''laugh''),
            (''hooray'', issue_reaction issue ''hooray''),
            (''confused'', issue_reaction issue ''confused''),
            (''heart'', issue_reaction issue ''heart'')])])"

text \<open>The user summary of \<^verbatim>\<open>get_user_data\<close>.\<close>

definition user_summary :: "json \<Rightarrow> py_error + json" where
  "user_summary user = py_dict
     [(''username'', py_getitem user ''login''),
      (''name'', py_get user ''name'' JNull),
      (''avatar_url'', py_get user ''avatar_url'' JNull),
      (''bio'', py_get user ''bio'' JNull),
      (''public_repos'', py_get user ''public_repos'' (JInt 0)),
      (''followers'', py_get user ''followers'' (JInt 0)),
      (''following'', py_get user ''following'' (JInt 0))]"

text \<open>The repository entry of \<^verbatim>\<open>get_user_repositories\<close>.\<close>

definition user_repo_summary :: "json \<Rightarrow> py_error + json" where
  "user_repo_summary repo = py_dict
     [(''id'', py_getitem repo ''id''),
      (''name'', py_getitem repo ''name''),
      (''full_name'', py_getitem repo ''full_name''),
      (''description'', py_get repo ''description'' (JStr [])),
      (''language'', py_get repo ''language'' (JStr ''Unknown'')),
      (''stargazers_count'', py_getitem repo ''stargazers_count''),
      (''forks_count'', py_getitem repo ''forks_count''),
      (''updated_at'', py_getitem repo ''updated_at''),
      (''html_url'', py_getitem repo ''html_url''),
      (''private'', py_getitem repo ''private''),
      (''fork'', py_getitem repo ''fork'')]"

section \<open>The upstream provider and the configuration\<close>

text \<open>
  A request is its URL and the value of its \<^verbatim>\<open>Authorization\<close> header. For the \<open>n\<close>-th
  request of a run (counted from 0), either the transport fails, or the provider answers
  with a status code and a body (\<open>None\<close> when the body is not JSON). The state threaded
  through the service is the list of the requests sent so far.

  The environment of a run holds the module's global \<^verbatim>\<open>GITHUB_TOKEN\<close> (\<open>None\<close> when the
  variable is unset), the provider, the text that \<^verbatim>\<open>str(e)\<close> gives for an exception, and
  the order in which the interpreter enumerates a set.
\<close>

type_synonym request = "string \<times> string"

datatype http_result =
    Transport_failure
  | Response int "json option"

record env =
  GITHUB_TOKEN :: "string option"
  upstream :: "nat \<Rightarrow> request \<Rightarrow> http_result"
  exc_message :: "py_error \<Rightarrow> string"
  set_order :: "json list \<Rightarrow> json list"

type_synonym 'a io = "request list \<Rightarrow> (py_error + 'a) \<times> request list"

definition return_io :: "'a \<Rightarrow> 'a io" where
  "return_io v log = (Inr v, log)"

definition lift_io :: "py_error + 'a \<Rightarrow> 'a io" where
  "lift_io r log = (r, log)"

definition bind_io :: "'a io \<Rightarrow> ('a \<Rightarrow> 'b io) \<Rightarrow> 'b io" where
  "bind_io m f log = (case m log of (Inl x, log') \<Rightarrow> (Inl x, log') | (Inr v, log') \<Rightarrow> f v log')"

definition GITHUB_API_BASE :: string where
  "GITHUB_API_BASE = ''https://api.github.com''"

text \<open>\<^verbatim>\<open>headers = {"Authorization": f"token {GITHUB_TOKEN}"}\<close>\<close>

definition authorization :: "env \<Rightarrow> string" where
  "authorization e = ''token '' @ (case GITHUB_TOKEN e of None \<Rightarrow> ''None'' | Some t \<Rightarrow> t)"

text \<open>
  \<^verbatim>\<open>await client.get(url, headers=headers)\<close>: the request is sent; a transport failure
  raises, any answer of the provider is returned with its status code.
\<close>

definition client_get :: "env \<Rightarrow> string \<Rightarrow> (int \<times> json option) io" where
  "client_get e url log =
     (case upstream e (length log) (url, authorization e) of
        Transport_failure \<Rightarrow> (Inl RequestError, log @ [(url, authorization e)])
      | Response status_code body \<Rightarrow> (Inr (status_code, body), log @ [(url, authorization e)]))"

text \<open>\<^verbatim>\<open>response.json()\<close>\<close>

definition response_json :: "json option \<Rightarrow> py_error + json" where
  "response_json body = (case body of None \<Rightarrow> Inl JSONDecodeError | Some v \<Rightarrow> Inr v)"

section \<open>The upstream functions\<close>

definition get_organization_data :: "env \<Rightarrow> string \<Rightarrow> json io" where
  "get_organization_data e organization =
     bind_io (client_get e (GITHUB_API_BASE @ ''/orgs/'' @ organization)) (\<lambda>response.
       if fst response = 200 then lift_io (response_json (snd response))
       else return_io (JObj [(''name'', JStr organization),
                             (''description'', JStr (organization @ '' Organization''))]))"

definition get_repository_data :: "env \<Rightarrow> string \<Rightarrow> string \<Rightarrow> json io" where
  "get_repository_data e organization repo_name =
     bind_io (client_get e (GITHUB_API_BASE @ ''/repos/'' @ organization @ ''/'' @ repo_name))
       (\<lambda>response.
         if fst response = 200
         then bind_io (lift_io (response_json (snd response))) (\<lambda>repo.
                lift_io (repository_summary repo))
         else return_io (JObj [(''name'', JStr repo_name),
                               (''description'', JStr ''Repository not found'')]))"

text \<open>
  The loop of \<^verbatim>\<open>get_repository_commits\<close> over \<^verbatim>\<open>commits[:10]\<close>: one detail request for
  each commit, then the summary with the detail (status 200) or the fallback summary
  (any other status), appended to \<open>detailed_commits\<close>.
\<close>

fun commits_loop :: "env \<Rightarrow> string \<Rightarrow> string \<Rightarrow> json list \<Rightarrow> json list \<Rightarrow> json list io" where
  "commits_loop e organization repo_name detailed_commits [] = return_io detailed_commits"
| "commits_loop e organization repo_name detailed_commits (commit # commits) =
     bind_io (lift_io (py_getitem commit ''sha'')) (\<lambda>sha.
     bind_io (client_get e (GITHUB_API_BASE @ ''/repos/'' @ organization @ ''/'' @ repo_name
                              @ ''/commits/'' @ py_str sha)) (\<lambda>detail_response.
       if fst detail_response = 200
       then bind_io (lift_io (response_json (snd detail_response))) (\<lambda>commit_detail.
            bind_io (lift_io (commit_summary repo_name commit (Some commit_detail))) (\<lambda>s.
              commits_loop e organization repo_name (detailed_commits @ [s]) commits))
       else bind_io (lift_io (commit_summary repo_name commit None)) (\<lambda>s.
              commits_loop e organization repo_name (detailed_commits @ [s]) commits)))"

definition get_repository_commits :: "env \<Rightarrow> string \<Rightarrow> string \<Rightarrow> json list io" where
  "get_repository_commits e organization repo_name =
     bind_io (client_get e (GITHUB_API_BASE @ ''/repos/'' @ organization @ ''/'' @ repo_name
                              @ ''/commits'')) (\<lambda>response.
       if fst response = 200
       then bind_io (lift_io (response_json (snd response))) (\<lambda>commits.
            bind_io (lift_io (bind_e (py_slice 10 commits) py_iter)) (\<lambda>first_commits.
              commits_loop e organization repo_name [] first_commits))
       else return_io [])"

text \<open>The loop of \<^verbatim>\<open>get_repository_pull_requests\<close> over \<^verbatim>\<open>prs[:10]\<close>.\<close>

fun prs_loop :: "string \<Rightarrow> json list \<Rightarrow> json list \<Rightarrow> py_error + json list" where
  "prs_loop repo_name detailed_prs [] = Inr detailed_prs"
| "prs_loop repo_name detailed_prs (pr # prs) =
     bind_e (pull_request_summary repo_name pr) (\<lambda>s.
       prs_loop repo_name (detailed_prs @ [s]) prs)"

definition get_repository_pull_requests :: "env \<Rightarrow> string \<Rightarrow> string \<Rightarrow> json list io" where
  "get_repository_pull_requests e organization repo_name =
     bind_io (client_get e (GITHUB_API_BASE @ ''/repos/'' @ organization @ ''/'' @ repo_name
                              @ ''/pulls'')) (\<lambda>response.
       if fst response = 200
       then bind_io (lift_io (response_json (snd response))) (\<lambda>prs.
            bind_io (lift_io (bind_e (py_slice 10 prs) py_iter)) (\<lambda>first_prs.
              lift_io (prs_loop repo_name [] first_prs)))
       else return_io [])"

text \<open>
  The loop of \<^verbatim>\<open>get_repository_issues\<close> over \<^verbatim>\<open>issues[:10]\<close>: an entry is summarised
  when \<^verbatim>\<open>"pull_request" not in issue\<close>, and skipped otherwise.
\<close>

fun issues_loop :: "string \<Rightarrow> json list \<Rightarrow> json list \<Rightarrow> py_error + json list" where
  "issues_loop repo_name detailed_issues [] = Inr detailed_issues"
| "issues_loop repo_name detailed_issues (issue # issues) =
     bind_e (py_in ''pull_request'' issue) (\<lambda>is_pr.
       if \<not> is_pr
       then bind_e (issue_summary repo_name issue) (\<lambda>s.
              issues_loop repo_name (detailed_issues @ [s]) issues)
       else issues_loop repo_name detailed_issues issues)"

definition get_repository_issues :: "env \<Rightarrow> string \<Rightarrow> string \<Rightarrow> json list io" where
  "get_repository_issues e organization repo_name =
     bind_io (client_get e (GITHUB_API_BASE @ ''/repos/'' @ organization @ ''/'' @ repo_name
                              @ ''/issues'')) (\<lambda>response.
       if fst response = 200
       then bind_io (lift_io (response_json (snd response))) (\<lambda>issues.
            bind_io (lift_io (bind_e (py_slice 10 issues) py_iter)) (\<lambda>first_issues.
              lift_io (issues_loop repo_name [] first_issues)))
       else return_io [])"

definition get_user_data :: "env \<Rightarrow> string \<Rightarrow> json io" where
  "get_user_data e username =
     bind_io (client_get e (GITHUB_API_BASE @ ''/users/'' @ username)) (\<lambda>response.
       if fst response = 200
       then bind_io (lift_io (response_json (snd response))) (\<lambda>user.
              lift_io (user_summary user))
       else return_io (JObj [(''username'', JStr username), (''name'', JStr username)]))"

text \<open>
  The comprehension of \<^verbatim>\<open>get_user_repositories\<close>: for each repository the condition
  \<^verbatim>\<open>repo["owner"]["login"] == username\<close> is evaluated, and the entry is built when it holds.
\<close>

fun user_repos :: "string \<Rightarrow> json list \<Rightarrow> py_error + json list" where
  "user_repos username [] = Inr []"
| "user_repos username (repo # all_repos) =
     bind_e (getitem_e (py_getitem repo ''owner'') ''login'') (\<lambda>login.
       if login = JStr username
       then bind_e (user_repo_summary repo) (\<lambda>s.
            bind_e (user_repos username all_repos) (\<lambda>rest. Inr (s # rest)))
       else user_repos username all_repos)"

definition get_user_repositories :: "env \<Rightarrow> string \<Rightarrow> json list io" where
  "get_user_repositories e username =
     bind_io (client_get e (GITHUB_API_BASE @ ''/user/repos'')) (\<lambda>response.
       if fst response = 200
       then bind_io (lift_io (response_json (snd response))) (\<lambda>all_repos.
            bind_io (lift_io (py_iter all_repos)) (\<lambda>rs.
              lift_io (user_repos username rs)))
       else return_io [])"

section \<open>The request handlers\<close>

text \<open>\<^verbatim>\<open>if not GITHUB_TOKEN\<close>: the variable is unset, or set to the empty string.\<close>

definition token_missing :: "env \<Rightarrow> bool" where
  "token_missing e = (case GITHUB_TOKEN e of None \<Rightarrow> True | Some t \<Rightarrow> t = [])"

definition config_error :: json where
  "config_error = JObj [(''error'', JStr ''GitHub token not configured'')]"

text \<open>
  \<^verbatim>\<open>try: ... except Exception as e: return {"error": str(e)}\<close>: a handler returns a body
  in every case, and the requests sent before the exception stay sent.
\<close>

definition try_except :: "env \<Rightarrow> json io \<Rightarrow> request list \<Rightarrow> json \<times> request list" where
  "try_except e m log =
     (case m log of
        (Inl x, log') \<Rightarrow> (JObj [(''error'', JStr (exc_message e x))], log')
      | (Inr v, log') \<Rightarrow> (v, log'))"

text \<open>\<^verbatim>\<open>len(set([commit["author"] for commit in commits_data]))\<close>\<close>

definition active_contributors :: "json list \<Rightarrow> py_error + json" where
  "active_contributors commits_data =
     bind_e (map_e (\<lambda>commit. py_getitem commit ''author'') commits_data) (\<lambda>authors.
     bind_e (py_set authors) (\<lambda>members. Inr (JInt (int (length members)))))"

definition len_json :: "json list \<Rightarrow> py_error + json" where
  "len_json xs = Inr (JInt (int (length xs)))"

text \<open>
  \<^verbatim>\<open>GET /api/github-data\<close>; the query parameters \<open>org\<close> and \<open>repo\<close> default to
  \<^verbatim>\<open>"microsoft"\<close> and \<^verbatim>\<open>"vscode"\<close>.
\<close>

definition get_github_data ::
  "env \<Rightarrow> string option \<Rightarrow> string option \<Rightarrow> request list \<Rightarrow> json \<times> request list" where
  "get_github_data e org_param repo_param =
     (let org = (case org_param of None \<Rightarrow> ''microsoft'' | Some v \<Rightarrow> v);
          repo = (case repo_param of None \<Rightarrow> ''vscode'' | Some v \<Rightarrow> v)
      in if token_missing e then (\<lambda>log. (config_error, log))
         else try_except e
           (bind_io (get_organization_data e org) (\<lambda>org_data.
            bind_io (get_repository_data e org repo) (\<lambda>repo_data.
            bind_io (get_repository_commits e org repo) (\<lambda>commits_data.
            bind_io (get_repository_pull_requests e org repo) (\<lambda>prs_data.
            bind_io (get_repository_issues e org repo) (\<lambda>issues_data.
            lift_io (py_dict
              [(''organization'', Inr org_data),
               (''repository'', Inr repo_data),
               (''commits'', Inr (JArr commits_data)),
               (''pullRequests'', Inr (JArr prs_data)),
               (''issues'', Inr (JArr issues_data)),
               (''stats'', py_dict
                  [(''totalCommits'', len_json commits_data),
                   (''totalPRs'', len_json prs_data),
                   (''totalIssues'', len_json issues_data),
                   (''activeContributors'', active_contributors commits_data),
                   (''repositoriesCount'', Inr (JInt 1))])]))))))))"

text \<open>\<^verbatim>\<open>GET /api/github/user\<close>\<close>

definition get_github_user :: "env \<Rightarrow> string \<Rightarrow> request list \<Rightarrow> json \<times> request list" where
  "get_github_user e username =
     (if token_missing e then (\<lambda>log. (config_error, log))
      else try_except e
        (bind_io (get_user_data e username) (\<lambda>user_data.
         bind_io (get_user_repositories e username) (\<lambda>repositories_data.
         lift_io (py_dict
           [(''user'', Inr user_data),
            (''repositories'', Inr (JArr repositories_data))])))))"

text \<open>\<^verbatim>\<open>len([repo for repo in repositories_data if repo["private"]])\<close> and its negation.\<close>

definition count_private :: "bool \<Rightarrow> json list \<Rightarrow> py_error + json" where
  "count_private wanted repositories_data =
     bind_e (map_e (\<lambda>repo. py_getitem repo ''private'') repositories_data) (\<lambda>flags.
       Inr (JInt (int (length (filter (\<lambda>p. py_bool p = wanted) flags)))))"

text \<open>
  \<^verbatim>\<open>list(set([repo["language"] for repo in repositories_data
                   if repo["language"] != "Unknown"]))\<close>
\<close>

definition languages :: "env \<Rightarrow> json list \<Rightarrow> py_error + json" where
  "languages e repositories_data =
     bind_e (map_e (\<lambda>repo. py_getitem repo ''language'') repositories_data) (\<lambda>ls.
     bind_e (py_set (filter (\<lambda>l. l \<noteq> JStr ''Unknown'') ls)) (\<lambda>members.
       Inr (JArr (set_order e members))))"

text \<open>\<^verbatim>\<open>sum([repo[k] for repo in repositories_data])\<close>\<close>

definition total_of :: "string \<Rightarrow> json list \<Rightarrow> py_error + json" where
  "total_of k repositories_data =
     bind_e (map_e (\<lambda>repo. py_getitem repo k) repositories_data) (\<lambda>vs.
     bind_e (sum_values 0 vs) (\<lambda>n. Inr (JInt n)))"

text \<open>\<^verbatim>\<open>GET /api/github/user/{username}/repositories\<close>\<close>

definition get_user_repositories_detailed ::
  "env \<Rightarrow> string \<Rightarrow> request list \<Rightarrow> json \<times> request list" where
  "get_user_repositories_detailed e username =
     (if token_missing e then (\<lambda>log. (config_error, log))
      else try_except e
        (bind_io (get_user_data e username) (\<lambda>user_data.
         bind_io (get_user_repositories e username) (\<lambda>repositories_data.
         lift_io (py_dict
           [(''user'', Inr user_data),
            (''repositories'', Inr (JArr repositories_data)),
            (''total_repos'', len_json repositories_data),
            (''private_repos'', count_private True repositories_data),
            (''public_repos'', count_private False repositories_data),
            (''languages'', languages e repositories_data),
            (''total_stars'', total_of ''stargazers_count'' repositories_data),
            (''total_forks'', total_of ''forks_count'' repositories_data)])))))"

text \<open>\<^verbatim>\<open>GET /api/github/user/{username}/repository/{repo_name}\<close>\<close>

definition get_user_repository_detailed ::
  "env \<Rightarrow> string \<Rightarrow> string \<Rightarrow> request list \<Rightarrow> json \<times> request list" where
  "get_user_repository_detailed e username repo_name =
     (if token_missing e then (\<lambda>log. (config_error, log))
      else try_except e
        (bind_io (get_repository_data e username repo_name) (\<lambda>repo_data.
         bind_io (get_repository_commits e username repo_name) (\<lambda>commits_data.
         bind_io (get_repository_pull_requests e username repo_name) (\<lambda>prs_data.
         bind_io (get_repository_issues e username repo_name) (\<lambda>issues_data.
         lift_io (py_dict
           [(''repository'', Inr repo_data),
            (''commits'', Inr (JArr commits_data)),
            (''pullRequests'', Inr (JArr prs_data)),
            (''issues'', Inr (JArr issues_data)),
            (''stats'', py_dict
               [(''totalCommits'', len_json commits_data),
                (''totalPRs'', len_json prs_data),
                (''totalIssues'', len_json issues_data),
                (''activeContributors'', active_contributors commits_data)])])))))))"

section \<open>Notions used in the statements\<close>

text \<open>A computation returned a value (it did not raise).\<close>

definition returns :: "py_error + 'a \<Rightarrow> bool" where
  "returns m = (case m of Inl _ \<Rightarrow> False | Inr _ \<Rightarrow> True)"

text \<open>
  The provider's answer to a request for \<open>url\<close> sent when \<open>log\<close> holds the requests sent
  so far.
\<close>

definition answer :: "env \<Rightarrow> request list \<Rightarrow> string \<Rightarrow> http_result" where
  "answer e log url = upstream e (length log) (url, authorization e)"

text \<open>The entries of a body, in order; none when the body cannot be iterated.\<close>

definition py_elems :: "json \<Rightarrow> json list" where
  "py_elems v = (case py_iter v of Inl _ \<Rightarrow> [] | Inr xs \<Rightarrow> xs)"

text \<open>The labels of an issue; none when the issue has no field \<^verbatim>\<open>labels\<close>.\<close>

definition issue_labels :: "json \<Rightarrow> json list" where
  "issue_labels issue =
     (case py_get issue ''labels'' (JArr []) of Inl _ \<Rightarrow> [] | Inr ls \<Rightarrow> py_elems ls)"

text \<open>
  The string \<open>s\<close> contains the lower-case word \<open>w\<close> in any mix of cases: some segment of
  \<open>s\<close> is \<open>w\<close> once its letters are put in lower case.
\<close>

definition contains_ci :: "string \<Rightarrow> string \<Rightarrow> bool" where
  "contains_ci w s = (\<exists>ps u ss. s = ps @ u @ ss \<and> map py_lower_char u = w)"

text \<open>The label is an object whose name is a string that contains \<open>w\<close> in any mix of cases.\<close>

definition label_matches :: "string \<Rightarrow> json \<Rightarrow> bool" where
  "label_matches w label =
     (case label of
        JObj kvs \<Rightarrow>
          (case map_of kvs ''name'' of Some (JStr name) \<Rightarrow> contains_ci w name | _ \<Rightarrow> False)
      | _ \<Rightarrow> False)"

text \<open>
  The priority that the specification gives to a set of labels: high before low before
  medium. It is a function of the set, so the order of the labels plays no part.
\<close>

definition label_priority :: "json set \<Rightarrow> string" where
  "label_priority labels =
     (if \<exists>l\<in>labels. label_matches ''high'' l then ''high''
      else if \<exists>l\<in>labels. label_matches ''low'' l then ''low''
      else ''medium'')"

text \<open>The test \<^verbatim>\<open>"pull_request" not in issue\<close> holds.\<close>

definition not_pull_request :: "json \<Rightarrow> bool" where
  "not_pull_request issue = (py_in ''pull_request'' issue = Inr False)"

text \<open>The entry is an object that carries the key \<^verbatim>\<open>pull_request\<close>.\<close>

definition pull_request_marker :: "json \<Rightarrow> bool" where
  "pull_request_marker v =
     (case v of JObj kvs \<Rightarrow> ''pull_request'' \<in> set (map fst kvs) | _ \<Rightarrow> False)"

text \<open>The test \<^verbatim>\<open>repo["owner"]["login"] == username\<close> holds.\<close>

definition owned_by :: "string \<Rightarrow> json \<Rightarrow> bool" where
  "owned_by username repo =
     (getitem_e (py_getitem repo ''owner'') ''login'' = Inr (JStr username))"

text \<open>An object without the fields \<open>ks\<close>; any other value is left as it is.\<close>

definition without :: "string list \<Rightarrow> json \<Rightarrow> json" where
  "without ks v =
     (case v of JObj kvs \<Rightarrow> JObj (filter (\<lambda>kv. fst kv \<notin> set ks) kvs) | _ \<Rightarrow> v)"

text \<open>
  The optional fields of each translator (those read with \<^verbatim>\<open>get\<close>), each with the
  field of the summary that it feeds and the default found there when it is missing.
\<close>

definition zero_reactions :: json where
  "zero_reactions = JObj
     [(''total_count'', JInt 0), (''thumbs_up'', JInt 0), (''thumbs_down'', JInt 0),
      (''laugh'', JInt 0), (''hooray'', JInt 0), (''confused'', JInt 0), (''heart'', JInt 0)]"

definition repository_optional :: "(string \<times> string \<times> json) list" where
  "repository_optional =
     [(''description'', ''description'', JStr []),
      (''language'', ''language'', JStr ''Unknown'')]"

definition commit_optional :: "(string \<times> string \<times> json) list" where
  "commit_optional = [(''author'', ''author_avatar'', JNull)]"

definition commit_detail_optional :: "(string \<times> string \<times> json) list" where
  "commit_detail_optional =
     [(''files'', ''files_changed'', JInt 0),
      (''files'', ''additions'', JInt 0),
      (''files'', ''deletions'', JInt 0)]"

definition pull_request_optional :: "(string \<times> string \<times> json) list" where
  "pull_request_optional =
     [(''body'', ''description'', JStr []),
      (''labels'', ''labels'', JArr []),
      (''assignees'', ''assignees'', JArr []),
      (''requested_reviewers'', ''reviewers'', JArr []),
      (''comments'', ''comments'', JInt 0),
      (''commits'', ''commits'', JInt 0),
      (''additions'', ''additions'', JInt 0),
      (''deletions'', ''deletions'', JInt 0),
      (''changed_files'', ''changed_files'', JInt 0),
      (''draft'', ''draft'', JBool False),
      (''merged'', ''merged'', JBool False),
      (''mergeable'', ''mergeable'', JNull)]"

definition issue_optional :: "(string \<times> string \<times> json) list" where
  "issue_optional =
     [(''body'', ''description'', JStr []),
      (''labels'', ''labels'', JArr []),
      (''labels'', ''priority'', JStr ''medium''),
      (''assignees'', ''assignees'', JArr []),
      (''comments'', ''comments'', JInt 0),
      (''milestone'', ''milestone'', JNull),
      (''locked'', ''locked'', JBool False),
      (''closed_at'', ''closed_at'', JNull),
      (''reactions'', ''reactions'', zero_reactions)]"

definition user_optional :: "(string \<times> string \<times> json) list" where
  "user_optional =
     [(''name'', ''name'', JNull),
      (''avatar_url'', ''avatar_url'', JNull),
      (''bio'', ''bio'', JNull),
      (''public_repos'', ''public_repos'', JInt 0),
      (''followers'', ''followers'', JInt 0),
      (''following'', ''following'', JInt 0)]"

text \<open>
  The summary \<open>s\<close> holds the default of every optional field among \<open>ks\<close>.
\<close>

definition has_defaults :: "(string \<times> string \<times> json) list \<Rightarrow> string list \<Rightarrow> json \<Rightarrow> bool" where
  "has_defaults optional ks s =
     list_all (\<lambda>(k, field, d). k \<in> set ks \<longrightarrow> py_getitem s field = Inr d) optional"

text \<open>
  The detail request that the loop of \<^verbatim>\<open>get_repository_commits\<close> sends for a commit, and
  the provider's answer to it when it is the \<open>n\<close>-th request of the run.
\<close>

definition detail_request :: "env \<Rightarrow> string \<Rightarrow> string \<Rightarrow> json \<Rightarrow> request" where
  "detail_request e organization repo_name commit =
     (GITHUB_API_BASE @ ''/repos/'' @ organization @ ''/'' @ repo_name @ ''/commits/''
        @ (case py_getitem commit ''sha'' of Inl _ \<Rightarrow> [] | Inr sha \<Rightarrow> py_str sha),
      authorization e)"

definition fetched_detail :: "env \<Rightarrow> string \<Rightarrow> string \<Rightarrow> nat \<Rightarrow> json \<Rightarrow> http_result" where
  "fetched_detail e organization repo_name n commit =
     upstream e n (detail_request e organization repo_name commit)"

text \<open>
  The summary \<open>s\<close> is the one that the loop appends for a commit whose detail request got
  the answer \<open>detail\<close>: the summary with the detail under status 200, the fallback
  summary under any other status, and none when the transport failed.
\<close>

definition commit_result :: "string \<Rightarrow> json \<Rightarrow> http_result \<Rightarrow> json \<Rightarrow> bool" where
  "commit_result repo_name commit detail s =
     (case detail of
        Transport_failure \<Rightarrow> False
      | Response status_code body \<Rightarrow>
          if status_code = 200
          then (case body of
                  None \<Rightarrow> False
                | Some commit_detail \<Rightarrow> commit_summary repo_name commit (Some commit_detail) = Inr s)
          else commit_summary repo_name commit None = Inr s)"

section \<open>Sample data\<close>

text \<open>
  A provider given by a table from URLs to answers (status 404 for any other URL), an
  environment around a provider, and small upstream objects that carry the required
  fields of an issue, a pull request, a commit and a repository.
\<close>

definition routes :: "(string \<times> http_result) list \<Rightarrow> nat \<Rightarrow> request \<Rightarrow> http_result" where
  "routes table n r = (case map_of table (fst r) of None \<Rightarrow> Response 404 None | Some a \<Rightarrow> a)"

definition sample_env :: "string option \<Rightarrow> (nat \<Rightarrow> request \<Rightarrow> http_result) \<Rightarrow> env" where
  "sample_env token provider =
     \<lparr>GITHUB_TOKEN = token, upstream = provider,
      exc_message = (\<lambda>x. ''upstream error''), set_order = (\<lambda>xs. xs)\<rparr>"

text \<open>A provider that cannot be reached, and one that knows nothing.\<close>

definition unreachable_provider :: "nat \<Rightarrow> request \<Rightarrow> http_result" where
  "unreachable_provider n r = Transport_failure"

definition not_found_provider :: "nat \<Rightarrow> request \<Rightarrow> http_result" where
  "not_found_provider n r = Response 404 None"

definition sample_user :: json where
  "sample_user = JObj [(''login'', JStr ''alice''), (''avatar_url'', JStr ''https://a/alice.png'')]"

definition sample_issue :: "int \<Rightarrow> (string \<times> json) list \<Rightarrow> json" where
  "sample_issue n extra =
     JObj ([(''number'', JInt n), (''title'', JStr ''crash''), (''user'', sample_user),
            (''state'', JStr ''open''), (''html_url'', JStr ''https://h/i''),
            (''created_at'', JStr ''2024-01-01''), (''updated_at'', JStr ''2024-01-02'')] @ extra)"

definition sample_label :: "string \<Rightarrow> json" where
  "sample_label name = JObj [(''name'', JStr name)]"

definition sample_issue_summary :: "string \<Rightarrow> string \<Rightarrow> json list \<Rightarrow> json" where
  "sample_issue_summary number priority labels =
     JObj [(''id'', JStr number), (''title'', JStr ''crash''), (''author'', JStr ''alice''),
           (''status'', JStr ''open''), (''priority'', JStr priority),
           (''repository'', JStr ''r''), (''url'', JStr ''https://h/i''),
           (''createdAt'', JStr ''2024-01-01''), (''updatedAt'', JStr ''2024-01-02''),
           (''description'', JStr []), (''labels'', JArr labels), (''assignees'', JArr []),
           (''comments'', JInt 0), (''author_avatar'', JStr ''https://a/alice.png''),
           (''milestone'', JNull), (''locked'', JBool False), (''closed_at'', JNull),
           (''reactions'', zero_reactions)]"

definition sample_pull_request_summary :: "string \<Rightarrow> json" where
  "sample_pull_request_summary number =
     JObj [(''id'', JStr number), (''title'', JStr ''crash''), (''author'', JStr ''alice''),
           (''status'', JStr ''open''), (''repository'', JStr ''r''),
           (''url'', JStr ''https://h/i''), (''createdAt'', JStr ''2024-01-01''),
           (''updatedAt'', JStr ''2024-01-02''), (''description'', JStr []),
           (''labels'', JArr []), (''assignees'', JArr []), (''reviewers'', JArr []),
           (''comments'', JInt 0), (''commits'', JInt 0), (''additions'', JInt 0),
           (''deletions'', JInt 0), (''changed_files'', JInt 0),
           (''author_avatar'', JStr ''https://a/alice.png''), (''draft'', JBool False),
           (''merged'', JBool False), (''mergeable'', JNull)]"

definition sample_commit :: "string \<Rightarrow> (string \<times> json) list \<Rightarrow> json" where
  "sample_commit sha extra =
     JObj ([(''sha'', JStr sha),
            (''commit'', JObj [(''message'', JStr ''fix''),
                               (''author'', JObj [(''name'', JStr ''Alice''),
                                                  (''date'', JStr ''2024-01-01'')])]),
            (''html_url'', JStr ''https://h/c'')] @ extra)"

definition sample_commit_summary :: "string \<Rightarrow> int \<Rightarrow> int \<Rightarrow> int \<Rightarrow> json \<Rightarrow> json" where
  "sample_commit_summary short_id files_changed additions deletions avatar =
     JObj [(''id'', JStr short_id), (''message'', JStr ''fix''), (''author'', JStr ''Alice''),
           (''date'', JStr ''2024-01-01''), (''repository'', JStr ''r''),
           (''url'', JStr ''https://h/c''), (''description'', JStr ''fix''),
           (''files_changed'', JInt files_changed), (''additions'', JInt additions),
           (''deletions'', JInt deletions), (''commit_url'', JStr ''https://h/c''),
           (''author_avatar'', avatar)]"

definition sample_repo :: "string \<Rightarrow> string \<Rightarrow> json" where
  "sample_repo owner name =
     JObj [(''id'', JInt 1), (''name'', JStr name), (''full_name'', JStr (owner @ ''/'' @ name)),
           (''stargazers_count'', JInt 3), (''forks_count'', JInt 1),
           (''updated_at'', JStr ''2024-01-01''), (''html_url'', JStr ''https://h/r''),
           (''private'', JBool False), (''fork'', JBool False),
           (''owner'', JObj [(''login'', JStr owner)])]"

definition sample_repo_summary :: "string \<Rightarrow> string \<Rightarrow> json" where
  "sample_repo_summary owner name =
     JObj [(''id'', JInt 1), (''name'', JStr name), (''full_name'', JStr (owner @ ''/'' @ name)),
           (''description'', JStr []), (''language'', JStr ''Unknown''),
           (''stargazers_count'', JInt 3), (''forks_count'', JInt 1),
           (''updated_at'', JStr ''2024-01-01''), (''html_url'', JStr ''https://h/r''),
           (''private'', JBool False), (''fork'', JBool False)]"

text \<open>
  A page of twelve entries whose first entry is a pull request, a page of three labelled
  issues, and the provider that serves a page as the issues of repository \<^verbatim>\<open>o/r\<close>.
\<close>

definition sample_issues_page :: json where
  "sample_issues_page = JArr
     [sample_issue 1 [(''pull_request'', JObj [])], sample_issue 2 [], sample_issue 3 [],
      sample_issue 4 [], sample_issue 5 [], sample_issue 6 [], sample_issue 7 [],
      sample_issue 8 [], sample_issue 9 [], sample_issue 10 [], sample_issue 11 [],
      sample_issue 12 []]"

definition sample_labelled_page :: json where
  "sample_labelled_page = JArr
     [sample_issue 7 [(''labels'', JArr [sample_label ''low'', sample_label ''Priority: HIGH''])],
      sample_issue 8 [(''labels'', JArr [sample_label ''docs'', sample_label ''LOW impact''])],
      sample_issue 9 [(''labels'', JArr [sample_label ''docs''])]]"

definition issues_provider :: "json \<Rightarrow> nat \<Rightarrow> request \<Rightarrow> http_result" where
  "issues_provider page =
     routes [(''https://api.github.com/repos/o/r/issues'', Response 200 (Some page))]"

text \<open>
  A provider for repository \<^verbatim>\<open>o/r\<close>: twelve commits, of which the first two have an
  author with an avatar and only the first has a detail; twelve pull requests; the twelve
  entries of \<open>sample_issues_page\<close>; and three repositories of two owners. The repository
  itself, the organization and the users are unknown to it (status 404).
\<close>

definition sample_detail :: json where
  "sample_detail = JObj
     [(''files'', JArr [JObj [(''additions'', JInt 3), (''deletions'', JInt 1)],
                        JObj [(''additions'', JInt 2)]])]"

definition sample_commits_page :: json where
  "sample_commits_page = JArr
     ([sample_commit ''1000000a'' [(''author'', sample_user)],
       sample_commit ''2000000a'' [(''author'', sample_user)]] @
      map (\<lambda>sha. sample_commit sha [])
        [''3000000a'', ''4000000a'', ''5000000a'', ''6000000a'', ''7000000a'', ''8000000a'',
         ''9000000a'', ''a000000a'', ''b000000a'', ''c000000a''])"

definition sample_commit_summaries :: "json list" where
  "sample_commit_summaries =
     [sample_commit_summary ''1000000'' 2 5 1 (JStr ''https://a/alice.png''),
      sample_commit_summary ''2000000'' 0 0 0 (JStr ''https://a/alice.png'')] @
     map (\<lambda>short_id. sample_commit_summary short_id 0 0 0 JNull)
       [''3000000'', ''4000000'', ''5000000'', ''6000000'', ''7000000'', ''8000000'',
        ''9000000'', ''a000000'']"

definition sample_commit_requests :: "request list" where
  "sample_commit_requests =
     (''https://api.github.com/repos/o/r/commits'', ''token t'') #
     map (\<lambda>sha. (''https://api.github.com/repos/o/r/commits/'' @ sha, ''token t''))
       [''1000000a'', ''2000000a'', ''3000000a'', ''4000000a'', ''5000000a'', ''6000000a'',
        ''7000000a'', ''8000000a'', ''9000000a'', ''a000000a'']"

definition sample_pulls_page :: json where
  "sample_pulls_page = JArr (map (\<lambda>n. sample_issue n []) [1, 2, 3, 4, 5, 6, 7, 8, 9, 10, 11, 12])"

definition sample_pull_summaries :: "json list" where
  "sample_pull_summaries =
     map (\<lambda>n. sample_pull_request_summary (py_str_int n)) [1, 2, 3, 4, 5, 6, 7, 8, 9, 10]"

definition sample_issue_summaries :: "json list" where
  "sample_issue_summaries =
     map (\<lambda>n. sample_issue_summary (py_str_int n) ''medium'' []) [2, 3, 4, 5, 6, 7, 8, 9, 10]"

definition sample_repos_page :: json where
  "sample_repos_page =
     JArr [sample_repo ''alice'' ''x'', sample_repo ''bob'' ''y'', sample_repo ''alice'' ''z'']"

definition sample_provider :: "nat \<Rightarrow> request \<Rightarrow> http_result" where
  "sample_provider = routes
     [(''https://api.github.com/repos/o/r/commits'', Response 200 (Some sample_commits_page)),
      (''https://api.github.com/repos/o/r/commits/1000000a'', Response 200 (Some sample_detail)),
      (''https://api.github.com/repos/o/r/pulls'', Response 200 (Some sample_pulls_page)),
      (''https://api.github.com/repos/o/r/issues'', Response 200 (Some sample_issues_page)),
      (''https://api.github.com/user/repos'', Response 200 (Some sample_repos_page))]"

definition sample_service :: env where
  "sample_service = sample_env (Some ''t'') sample_provider"


definition sample_bundle :: "(string \<times> json) list" where
  "sample_bundle =
     [(''repository'', JObj [(''name'', JStr ''r''),
                             (''description'', JStr ''Repository not found'')]),
      (''commits'', JArr sample_commit_summaries),
      (''pullRequests'', JArr sample_pull_summaries),
      (''issues'', JArr sample_issue_summaries)]"

definition sample_bundle_requests :: "request list" where
  "sample_bundle_requests =
     [(''https://api.github.com/repos/o/r'', ''token t'')] @ sample_commit_requests @
     [(''https://api.github.com/repos/o/r/pulls'', ''token t''),
      (''https://api.github.com/repos/o/r/issues'', ''token t'')]"

text \<open>A provider that knows one commit, with an author, and not its detail.\<close>

definition one_commit_provider :: "nat \<Rightarrow> request \<Rightarrow> http_result" where
  "one_commit_provider = routes
     [(''https://api.github.com/repos/o/r/commits'',
       Response 200 (Some (JArr [sample_commit ''2000000a'' [(''author'', sample_user)]])))]"

text \<open>Upstream objects that carry optional fields.\<close>

definition sample_full_repo :: json where
  "sample_full_repo =
     JObj [(''name'', JStr ''r''), (''description'', JStr ''a tool''),
           (''language'', JStr ''Python''), (''stargazers_count'', JInt 3),
           (''forks_count'', JInt 1), (''html_url'', JStr ''https://h/r''),
           (''updated_at'', JStr ''2024-01-01'')]"

definition sample_full_issue :: json where
  "sample_full_issue =
     sample_issue 7 [(''labels'', JArr [sample_label ''high'']), (''body'', JStr ''text''),
                     (''milestone'', JObj [(''title'', JStr ''v1'')]),
                     (''draft'', JBool True)]"

definition sample_full_user :: json where
  "sample_full_user =
     JObj [(''login'', JStr ''alice''), (''name'', JStr ''Alice''), (''followers'', JInt 5)]"

section \<open>Basic facts\<close>

lemma bind_e_Inl [simp]: "bind_e (Inl x) f = Inl x"
  by (simp add: bind_e_def)

lemma bind_e_Inr [simp]: "bind_e (Inr v) f = f v"
  by (simp add: bind_e_def)

lemma bind_e_eq_Inr: "bind_e m f = Inr y \<longleftrightarrow> (\<exists>v. m = Inr v \<and> f v = Inr y)"
  by (cases m) simp_all

lemma returns_simps [simp]: "returns (Inl x) = False" "returns (Inr v) = True"
  by (simp_all add: returns_def)

lemma returns_iff: "returns m \<longleftrightarrow> (\<exists>v. m = Inr v)"
  by (cases m) simp_all

lemma returns_bind_e: "returns (bind_e m f) \<longleftrightarrow> (\<exists>v. m = Inr v \<and> returns (f v))"
  by (cases m) simp_all

text \<open>The definitions that a run on concrete data unfolds.\<close>

lemmas translator_defs =
  commit_summary.simps getitem_e_def py_dict_def field_list_def number_str_def py_str_def py_str_int_def
  dec_digits.simps py_lower_char_def repository_summary_def commit_author_avatar_def
  detail_sum_def pull_request_summary_def any_issue_label_def issue_priority_def
  issue_milestone_def issue_reaction_def issue_summary_def user_summary_def
  user_repo_summary_def

lemmas io_defs =
  bind_io_def lift_io_def return_io_def client_get_def response_json_def GITHUB_API_BASE_def

lemmas sample_defs =
  routes_def sample_env_def sample_user_def sample_issue_def sample_label_def
  sample_issue_summary_def sample_pull_request_summary_def sample_commit_def
  sample_commit_summary_def sample_repo_def sample_repo_summary_def zero_reactions_def

section \<open>The configuration error\<close>

text \<open>
  C4. When \<^verbatim>\<open>GITHUB_TOKEN\<close> is unset, each of the four data endpoints returns the body
  \<^verbatim>\<open>{"error": "GitHub token not configured"}\<close> and sends no request: the list of the
  requests sent is the one it started from.
\<close>

theorem token_unset_config_error:
  assumes "GITHUB_TOKEN e = None"
  shows "get_github_data e org repo log =
           (JObj [(''error'', JStr ''GitHub token not configured'')], log) \<and>
         get_github_user e username log =
           (JObj [(''error'', JStr ''GitHub token not configured'')], log) \<and>
         get_user_repositories_detailed e username log =
           (JObj [(''error'', JStr ''GitHub token not configured'')], log) \<and>
         get_user_repository_detailed e username repo_name log =
           (JObj [(''error'', JStr ''GitHub token not configured'')], log)"
  using assms
  by (simp add: get_github_data_def get_github_user_def get_user_repositories_detailed_def
      get_user_repository_detailed_def token_missing_def config_error_def Let_def)

theorem token_unset_config_error_witness:
  "GITHUB_TOKEN (sample_env None unreachable_provider) = None \<and>
   get_github_data (sample_env None unreachable_provider) None None [] =
     (JObj [(''error'', JStr ''GitHub token not configured'')], []) \<and>
   get_github_user (sample_env None unreachable_provider) ''alice'' [] =
     (JObj [(''error'', JStr ''GitHub token not configured'')], []) \<and>
   get_user_repositories_detailed (sample_env None unreachable_provider) ''alice'' [] =
     (JObj [(''error'', JStr ''GitHub token not configured'')], []) \<and>
   get_user_repository_detailed (sample_env None unreachable_provider) ''alice'' ''r'' [] =
     (JObj [(''error'', JStr ''GitHub token not configured'')], [])"
  using token_unset_config_error
    [of "sample_env None unreachable_provider" None None "[]" "''alice''" "''r''"]
  by (simp add: sample_env_def)

section \<open>Substrings\<close>

lemma py_contains_iff: "py_contains w s \<longleftrightarrow> (\<exists>ps ss. s = ps @ w @ ss)"
proof (induction s)
  case Nil
  then show ?case by auto
next
  case (Cons c cs)
  have pre: "take (length w) (c # cs) = w \<longleftrightarrow> (\<exists>ss. c # cs = w @ ss)"
    by (metis append_eq_conv_conj)
  show ?case
  proof
    assume "py_contains w (c # cs)"
    then consider "take (length w) (c # cs) = w" | "py_contains w cs" by auto
    then show "\<exists>ps ss. c # cs = ps @ w @ ss"
    proof cases
      case 1
      then obtain ss where "c # cs = w @ ss" using pre by blast
      then have "c # cs = [] @ w @ ss" by simp
      then show ?thesis by blast
    next
      case 2
      then obtain ps ss where "cs = ps @ w @ ss" using Cons.IH by blast
      then have "c # cs = (c # ps) @ w @ ss" by simp
      then show ?thesis by blast
    qed
  next
    assume "\<exists>ps ss. c # cs = ps @ w @ ss"
    then obtain ps ss where eq: "c # cs = ps @ w @ ss" by blast
    show "py_contains w (c # cs)"
    proof (cases ps)
      case Nil
      with eq have "c # cs = w @ ss" by simp
      with pre have "take (length w) (c # cs) = w" by blast
      then show ?thesis by simp
    next
      case (Cons p ps')
      with eq have "cs = ps' @ w @ ss" by simp
      then show ?thesis using Cons.IH by auto
    qed
  qed
qed

text \<open>
  Looking for a lower-case word in the lower-cased string, as the code does, finds the
  word in any mix of cases.
\<close>

lemma contains_ci_code: "contains_ci w s = py_contains w (map py_lower_char s)"
proof -
  have "(\<exists>ps u ss. s = ps @ u @ ss \<and> map py_lower_char u = w)
        \<longleftrightarrow> (\<exists>ps' ss'. map py_lower_char s = ps' @ w @ ss')"
  proof
    assume "\<exists>ps u ss. s = ps @ u @ ss \<and> map py_lower_char u = w"
    then obtain ps u ss where "s = ps @ u @ ss" "map py_lower_char u = w" by blast
    then have "map py_lower_char s = map py_lower_char ps @ w @ map py_lower_char ss" by simp
    then show "\<exists>ps' ss'. map py_lower_char s = ps' @ w @ ss'" by blast
  next
    assume "\<exists>ps' ss'. map py_lower_char s = ps' @ w @ ss'"
    then obtain ps' ss' where "map py_lower_char s = ps' @ w @ ss'" by blast
    then obtain ps r where s: "s = ps @ r" and r: "map py_lower_char r = w @ ss'"
      using map_eq_append_conv [of py_lower_char s ps' "w @ ss'"] by auto
    from r obtain u ss where "r = u @ ss" "map py_lower_char u = w"
      using map_eq_append_conv [of py_lower_char r w ss'] by auto
    with s show "\<exists>ps u ss. s = ps @ u @ ss \<and> map py_lower_char u = w" by blast
  qed
  then show ?thesis by (simp add: contains_ci_def py_contains_iff)
qed

section \<open>Dictionary displays\<close>

lemma py_dict_items_returns:
  "returns (py_dict_items items) \<longleftrightarrow> list_all (\<lambda>item. returns (snd item)) items"
proof (induction items)
  case Nil
  then show ?case by simp
next
  case (Cons item items)
  obtain k m where item: "item = (k, m)" by (cases item)
  show ?case
  proof (cases m)
    case (Inl x)
    with item show ?thesis by simp
  next
    case (Inr v)
    with item Cons.IH show ?thesis
      by (cases "py_dict_items items") simp_all
  qed
qed

lemma py_dict_returns:
  "returns (py_dict items) \<longleftrightarrow> list_all (\<lambda>item. returns (snd item)) items"
  using py_dict_items_returns [of items]
  by (cases "py_dict_items items") (simp_all add: py_dict_def)

lemma py_dict_items_field:
  "py_dict_items items = Inr kvs \<Longrightarrow> map_of items k = Some m \<Longrightarrow>
   \<exists>v. m = Inr v \<and> map_of kvs k = Some v"
proof (induction items arbitrary: kvs)
  case Nil
  then show ?case by simp
next
  case (Cons item items)
  obtain k' m' where item: "item = (k', m')" by (cases item)
  from Cons.prems(1) item obtain v' kvs' where m': "m' = Inr v'"
    and rest: "py_dict_items items = Inr kvs'" and kvs: "kvs = (k', v') # kvs'"
    by (auto split: sum.splits)
  show ?case
  proof (cases "k = k'")
    case True
    with Cons.prems(2) item m' kvs show ?thesis by simp
  next
    case False
    with Cons.prems(2) item have "map_of items k = Some m" by simp
    from Cons.IH [OF rest this] False kvs show ?thesis by simp
  qed
qed

lemma py_dict_items_keys:
  "py_dict_items items = Inr kvs \<Longrightarrow> map fst kvs = map fst items"
proof (induction items arbitrary: kvs)
  case Nil
  then show ?case by simp
next
  case (Cons item items)
  obtain k m where item: "item = (k, m)" by (cases item)
  from Cons.prems item obtain v kvs' where "py_dict_items items = Inr kvs'" "kvs = (k, v) # kvs'"
    by (auto split: sum.splits)
  with Cons.IH item show ?case by simp
qed

text \<open>A field of a display that was built is the value of the entry written for it.\<close>

lemma py_dict_field:
  assumes "py_dict items = Inr s" and "map_of items k = Some m"
  shows "py_getitem s k = m"
proof -
  from assms(1) obtain kvs where kvs: "py_dict_items items = Inr kvs" and s: "s = JObj kvs"
    by (auto simp: py_dict_def split: sum.splits)
  from py_dict_items_field [OF kvs assms(2)] s show ?thesis by auto
qed

lemma py_dict_keys:
  assumes "py_dict items = Inr s"
  shows "\<exists>kvs. s = JObj kvs \<and> map fst kvs = map fst items"
proof -
  from assms obtain kvs where kvs: "py_dict_items items = Inr kvs" and s: "s = JObj kvs"
    by (auto simp: py_dict_def split: sum.splits)
  from py_dict_items_keys [OF kvs] s show ?thesis by simp
qed

section \<open>Issues\<close>

lemma any_label_result:
  "any_label w labels = Inr b \<Longrightarrow> b = (\<exists>l\<in>set labels. label_matches w l)"
proof (induction labels)
  case Nil
  then show ?case by simp
next
  case (Cons label labels)
  from Cons.prems obtain n s where n: "py_getitem label ''name'' = Inr n"
    and s: "py_lower n = Inr s"
    and rest: "(if py_contains w s then Inr True else any_label w labels) = Inr b"
    by (auto simp: bind_e_eq_Inr)
  from s obtain name where name: "n = JStr name" "s = map py_lower_char name"
    by (cases n) auto
  from n name obtain kvs where kvs: "label = JObj kvs" "map_of kvs ''name'' = Some (JStr name)"
    by (cases label) (auto split: option.splits)
  have m: "label_matches w label = py_contains w s"
    using kvs name by (simp add: label_matches_def contains_ci_code)
  show ?case
  proof (cases "py_contains w s")
    case True
    with rest m show ?thesis by auto
  next
    case False
    with rest have "any_label w labels = Inr b" by simp
    with Cons.IH have "b = (\<exists>l\<in>set labels. label_matches w l)" by simp
    with False m show ?thesis by simp
  qed
qed

lemma any_issue_label_result:
  assumes "any_issue_label w issue = Inr b"
  shows "b = (\<exists>l\<in>set (issue_labels issue). label_matches w l)"
proof -
  from assms obtain ls xs where "py_get issue ''labels'' (JArr []) = Inr ls" "py_iter ls = Inr xs"
    "any_label w xs = Inr b"
    by (auto simp: any_issue_label_def bind_e_eq_Inr)
  then show ?thesis
    using any_label_result [of w xs b] by (simp add: issue_labels_def py_elems_def)
qed

lemma issue_priority_result:
  assumes "issue_priority issue = Inr p"
  shows "p = label_priority (set (issue_labels issue))"
proof -
  from assms obtain h where h: "any_issue_label ''high'' issue = Inr h"
    and rest: "(if h then Inr ''high''
                else bind_e (any_issue_label ''low'' issue) (\<lambda>l.
                  if l then Inr ''low'' else Inr ''medium'')) = Inr p"
    by (auto simp: issue_priority_def bind_e_eq_Inr)
  have hm: "h = (\<exists>l\<in>set (issue_labels issue). label_matches ''high'' l)"
    using any_issue_label_result [OF h] .
  show ?thesis
  proof (cases h)
    case True
    with rest have "p = ''high''" by simp
    with True hm show ?thesis by (simp add: label_priority_def)
  next
    case False
    with rest obtain l where l: "any_issue_label ''low'' issue = Inr l"
      and p: "(if l then Inr ''low'' else Inr ''medium'') = (Inr p :: py_error + string)"
      by (auto simp: bind_e_eq_Inr)
    have lm: "l = (\<exists>l\<in>set (issue_labels issue). label_matches ''low'' l)"
      using any_issue_label_result [OF l] .
    from p have "p = (if l then ''low'' else ''medium'')" by (simp split: if_splits)
    with False hm lm show ?thesis by (simp add: label_priority_def)
  qed
qed

lemma issue_summary_priority:
  assumes "issue_summary repo_name issue = Inr s"
  shows "py_getitem s ''priority'' = Inr (JStr (label_priority (set (issue_labels issue))))"
proof -
  from assms obtain p where p: "issue_priority issue = Inr p"
    and d: "py_dict
       [(''id'', number_str issue),
        (''title'', py_getitem issue ''title''),
        (''author'', getitem_e (py_getitem issue ''user'') ''login''),
        (''status'', py_getitem issue ''state''),
        (''priority'', Inr (JStr p)),
        (''repository'', Inr (JStr repo_name)),
        (''url'', py_getitem issue ''html_url''),
        (''createdAt'', py_getitem issue ''created_at''),
        (''updatedAt'', py_getitem issue ''updated_at''),
        (''description'', py_get issue ''body'' (JStr [])),
        (''labels'', field_list issue ''labels'' ''name''),
        (''assignees'', field_list issue ''assignees'' ''login''),
        (''comments'', py_get issue ''comments'' (JInt 0)),
        (''author_avatar'', getitem_e (py_getitem issue ''user'') ''avatar_url''),
        (''milestone'', issue_milestone issue),
        (''locked'', py_get issue ''locked'' (JBool False)),
        (''closed_at'', py_get issue ''closed_at'' JNull),
        (''reactions'', py_dict
           [(''total_count'', issue_reaction issue ''total_count''),
            (''thumbs_up'', issue_reaction issue ''+1''),
            (''thumbs_down'', issue_reaction issue ''-1''),
            (''laugh'', issue_reaction issue ''laugh''),
            (''hooray'', issue_reaction issue ''hooray''),
            (''confused'', issue_reaction issue ''confused''),
            (''heart'', issue_reaction issue ''heart'')])] = Inr s"
    by (auto simp: issue_summary_def bind_e_eq_Inr)
  have "py_getitem s ''priority'' = Inr (JStr p)"
    by (rule py_dict_field [OF d]) simp
  with issue_priority_result [OF p] show ?thesis by simp
qed

lemma issue_summary_no_marker:
  assumes "issue_summary repo_name issue = Inr s"
  shows "\<not> pull_request_marker s"
proof -
  from assms obtain p items where "py_dict items = Inr s"
    and "map fst items = [''id'', ''title'', ''author'', ''status'', ''priority'', ''repository'',
      ''url'', ''createdAt'', ''updatedAt'', ''description'', ''labels'', ''assignees'',
      ''comments'', ''author_avatar'', ''milestone'', ''locked'', ''closed_at'', ''reactions'']"
    by (auto simp: issue_summary_def bind_e_eq_Inr)
  with py_dict_keys [of items s] show ?thesis
    by (auto simp: pull_request_marker_def)
qed

lemma issue_summary_object:
  assumes "issue_summary repo_name issue = Inr s"
  shows "\<exists>kvs. issue = JObj kvs"
  using assms
  by (cases issue) (simp_all add: issue_summary_def issue_priority_def any_issue_label_def)

lemma not_pull_request_object:
  "not_pull_request (JObj kvs) = (\<not> pull_request_marker (JObj kvs))"
  by (simp add: not_pull_request_def pull_request_marker_def)

lemma issues_loop_result:
  "issues_loop repo_name acc issues = Inr out \<Longrightarrow>
   \<exists>ys. out = acc @ ys \<and>
        map (issue_summary repo_name) (filter not_pull_request issues) = map Inr ys"
proof (induction issues arbitrary: acc)
  case Nil
  then show ?case by simp
next
  case (Cons issue issues)
  from Cons.prems obtain is_pr where pr: "py_in ''pull_request'' issue = Inr is_pr"
    and rest: "(if \<not> is_pr
                then bind_e (issue_summary repo_name issue) (\<lambda>s.
                       issues_loop repo_name (acc @ [s]) issues)
                else issues_loop repo_name acc issues) = Inr out"
    by (auto simp: bind_e_eq_Inr)
  show ?case
  proof (cases is_pr)
    case True
    with rest have "issues_loop repo_name acc issues = Inr out" by simp
    from Cons.IH [OF this] True pr show ?thesis by (simp add: not_pull_request_def)
  next
    case False
    with rest obtain s where s: "issue_summary repo_name issue = Inr s"
      and loop: "issues_loop repo_name (acc @ [s]) issues = Inr out"
      by (auto simp: bind_e_eq_Inr)
    from Cons.IH [OF loop] obtain ys where "out = (acc @ [s]) @ ys"
      "map (issue_summary repo_name) (filter not_pull_request issues) = map Inr ys" by blast
    with False pr s have "out = acc @ (s # ys) \<and>
      map (issue_summary repo_name) (filter not_pull_request (issue # issues)) = map Inr (s # ys)"
      by (simp add: not_pull_request_def)
    then show ?thesis by blast
  qed
qed

lemma slice_iter_elems:
  "py_slice n v = Inr sl \<Longrightarrow> py_iter sl = Inr xs \<Longrightarrow> xs = take n (py_elems v)"
  by (cases v) (auto simp: py_elems_def take_map)

lemma get_repository_issues_result:
  assumes "get_repository_issues e organization repo_name log = (Inr out, log')"
  shows "(\<exists>sc b. answer e log (GITHUB_API_BASE @ ''/repos/'' @ organization @ ''/'' @ repo_name
                         @ ''/issues'') = Response sc b \<and> sc \<noteq> 200 \<and> out = []) \<or>
         (\<exists>body. answer e log (GITHUB_API_BASE @ ''/repos/'' @ organization @ ''/'' @ repo_name
                         @ ''/issues'') = Response 200 (Some body) \<and>
                 map (issue_summary repo_name) (filter not_pull_request (take 10 (py_elems body)))
                   = map Inr out)"
proof -
  from assms have "(\<exists>sc b. answer e log (GITHUB_API_BASE @ ''/repos/'' @ organization @ ''/''
                         @ repo_name @ ''/issues'') = Response sc b \<and> sc \<noteq> 200 \<and> out = []) \<or>
         (\<exists>body. answer e log (GITHUB_API_BASE @ ''/repos/'' @ organization @ ''/'' @ repo_name
                         @ ''/issues'') = Response 200 (Some body) \<and>
                 issues_loop repo_name [] (take 10 (py_elems body)) = Inr out)"
    by (auto simp: get_repository_issues_def bind_io_def lift_io_def return_io_def client_get_def
        answer_def response_json_def bind_e_eq_Inr
      split: http_result.splits if_splits option.splits sum.splits prod.splits
      dest: slice_iter_elems)
  then show ?thesis
    using issues_loop_result [of repo_name "[]" _ out] by fastforce
qed

text \<open>Every summary of the list is the summary of an entry that passed the test.\<close>

lemma returned_issue_source:
  assumes "get_repository_issues e organization repo_name log = (Inr out, log')"
    and "s \<in> set out"
  shows "\<exists>body issue.
           answer e log (GITHUB_API_BASE @ ''/repos/'' @ organization @ ''/'' @ repo_name
             @ ''/issues'') = Response 200 (Some body) \<and>
           issue \<in> set (take 10 (py_elems body)) \<and> not_pull_request issue \<and>
           issue_summary repo_name issue = Inr s"
proof -
  from get_repository_issues_result [OF assms(1)] assms(2)
  obtain body where body: "answer e log (GITHUB_API_BASE @ ''/repos/'' @ organization @ ''/''
      @ repo_name @ ''/issues'') = Response 200 (Some body)"
    and m: "map (issue_summary repo_name) (filter not_pull_request (take 10 (py_elems body)))
      = map Inr out"
    by auto
  from assms(2) have "Inr s \<in> set (map Inr out :: (py_error + json) list)" by simp
  with m have "Inr s \<in> set (map (issue_summary repo_name)
      (filter not_pull_request (take 10 (py_elems body))))" by simp
  then obtain issue where "issue \<in> set (take 10 (py_elems body))" "not_pull_request issue"
    "issue_summary repo_name issue = Inr s" by auto
  with body show ?thesis by blast
qed

section \<open>The claims on the issue list\<close>

text \<open>
  C1. Every issue that \<^verbatim>\<open>get_repository_issues\<close> returns is the summary of one of the
  first ten entries of the upstream answer, and its priority is the one that the labels
  of that entry determine: high if the name of some label contains \<^verbatim>\<open>high\<close> in any mix
  of cases, else low if the name of some label contains \<^verbatim>\<open>low\<close>, else medium. The
  priority is a function of the set of the labels, so their order plays no part.
\<close>

theorem issue_priority_from_labels:
  assumes "get_repository_issues e organization repo_name log = (Inr detailed_issues, log')"
    and "s \<in> set detailed_issues"
  shows "\<exists>body issue.
           answer e log (GITHUB_API_BASE @ ''/repos/'' @ organization @ ''/'' @ repo_name
             @ ''/issues'') = Response 200 (Some body) \<and>
           issue \<in> set (take 10 (py_elems body)) \<and>
           issue_summary repo_name issue = Inr s \<and>
           py_getitem s ''priority'' =
             Inr (JStr (label_priority (set (issue_labels issue))))"
  using returned_issue_source [OF assms] issue_summary_priority by blast

text \<open>
  C6. No issue that \<^verbatim>\<open>get_repository_issues\<close> returns carries the key
  \<^verbatim>\<open>pull_request\<close>, and each is the summary of an upstream entry that does not carry it:
  the entries of the issues endpoint that are pull requests are left out.
\<close>

theorem issue_list_excludes_pull_requests:
  assumes "get_repository_issues e organization repo_name log = (Inr detailed_issues, log')"
    and "s \<in> set detailed_issues"
  shows "\<not> pull_request_marker s \<and>
         (\<exists>body issue.
           answer e log (GITHUB_API_BASE @ ''/repos/'' @ organization @ ''/'' @ repo_name
             @ ''/issues'') = Response 200 (Some body) \<and>
           issue \<in> set (take 10 (py_elems body)) \<and>
           \<not> pull_request_marker issue \<and>
           issue_summary repo_name issue = Inr s)"
proof -
  from returned_issue_source [OF assms] obtain body issue where
    b: "answer e log (GITHUB_API_BASE @ ''/repos/'' @ organization @ ''/'' @ repo_name
             @ ''/issues'') = Response 200 (Some body)"
    and i: "issue \<in> set (take 10 (py_elems body))" "not_pull_request issue"
      "issue_summary repo_name issue = Inr s" by blast
  from i(3) obtain kvs where "issue = JObj kvs" using issue_summary_object by blast
  with i(2) have "\<not> pull_request_marker issue" by (simp add: not_pull_request_object)
  with b i issue_summary_no_marker [OF i(3)] show ?thesis by blast
qed

text \<open>
  C10. The pull requests are filtered out after the truncation: the list returned is,
  in order, the summaries of the entries among the first ten of the upstream answer that
  pass the test \<^verbatim>\<open>"pull_request" not in issue\<close> (for an object: that do not carry the key).
  So when one of the first ten entries is a pull request, fewer than ten issues are
  returned, however many issues the answer holds after the tenth entry.
\<close>

theorem issue_filter_after_truncation:
  assumes "get_repository_issues e organization repo_name log = (Inr detailed_issues, log')"
    and "answer e log (GITHUB_API_BASE @ ''/repos/'' @ organization @ ''/'' @ repo_name
             @ ''/issues'') = Response 200 (Some body)"
  shows "map Inr detailed_issues =
           map (issue_summary repo_name) (filter not_pull_request (take 10 (py_elems body))) \<and>
         ((\<exists>issue\<in>set (take 10 (py_elems body)). \<not> not_pull_request issue) \<longrightarrow>
            length detailed_issues < 10) \<and>
         (\<forall>kvs. not_pull_request (JObj kvs) = (\<not> pull_request_marker (JObj kvs)))"
proof -
  let ?first = "take 10 (py_elems body)"
  from get_repository_issues_result [OF assms(1)] assms(2)
  have m: "map (issue_summary repo_name) (filter not_pull_request ?first) = map Inr detailed_issues"
    by auto
  then have len: "length detailed_issues = length (filter not_pull_request ?first)"
    by (metis length_map)
  have "length detailed_issues < 10" if "\<exists>issue\<in>set ?first. \<not> not_pull_request issue"
  proof -
    from that obtain issue where "issue \<in> set ?first" "\<not> not_pull_request issue" by blast
    then have "length (filter not_pull_request ?first) < length ?first"
      by (rule length_filter_less)
    moreover have "length ?first \<le> 10" by simp
    ultimately show ?thesis using len by linarith
  qed
  with m show ?thesis by (simp add: not_pull_request_object)
qed


section \<open>Runs on the sample issues\<close>

lemma sample_issue_run:
  "issue_summary ''r'' (sample_issue n []) =
     Inr (sample_issue_summary (py_str_int n) ''medium'' [])"
  by (simp add: translator_defs sample_defs)

lemma sample_issue_in:
  "py_in ''pull_request'' (sample_issue n []) = Inr False"
  "py_in ''pull_request'' (sample_issue n [(''pull_request'', v)]) = Inr True"
  by (simp_all add: sample_defs)

lemma sample_issues_run:
  "get_repository_issues (sample_env (Some ''t'') (issues_provider sample_issues_page))
     ''o'' ''r'' [] =
   (Inr [sample_issue_summary ''2'' ''medium'' [], sample_issue_summary ''3'' ''medium'' [],
         sample_issue_summary ''4'' ''medium'' [], sample_issue_summary ''5'' ''medium'' [],
         sample_issue_summary ''6'' ''medium'' [], sample_issue_summary ''7'' ''medium'' [],
         sample_issue_summary ''8'' ''medium'' [], sample_issue_summary ''9'' ''medium'' [],
         sample_issue_summary ''10'' ''medium'' []],
    [(''https://api.github.com/repos/o/r/issues'', ''token t'')])"
  by (simp add: get_repository_issues_def io_defs authorization_def routes_def sample_env_def issues_provider_def
        sample_issues_page_def sample_issue_run sample_issue_in py_str_int_def dec_digits.simps)

lemma sample_labelled_run:
  "get_repository_issues (sample_env (Some ''t'') (issues_provider sample_labelled_page))
     ''o'' ''r'' [] =
   (Inr [sample_issue_summary ''7'' ''high'' [JStr ''low'', JStr ''Priority: HIGH''],
         sample_issue_summary ''8'' ''low'' [JStr ''docs'', JStr ''LOW impact''],
         sample_issue_summary ''9'' ''medium'' [JStr ''docs'']],
    [(''https://api.github.com/repos/o/r/issues'', ''token t'')])"
  by (simp add: get_repository_issues_def io_defs authorization_def translator_defs sample_defs issues_provider_def
        sample_labelled_page_def dec_digits.simps)

lemma sample_label_priorities:
  "label_priority (set (issue_labels
      (sample_issue 7 [(''labels'', JArr [sample_label ''low'', sample_label ''Priority: HIGH''])])))
     = ''high''"
  "label_priority (set (issue_labels
      (sample_issue 8 [(''labels'', JArr [sample_label ''docs'', sample_label ''LOW impact''])])))
     = ''low''"
  "label_priority (set (issue_labels
      (sample_issue 9 [(''labels'', JArr [sample_label ''docs''])])))
     = ''medium''"
  by (simp_all add: label_priority_def issue_labels_def py_elems_def label_matches_def
      contains_ci_code sample_issue_def sample_label_def py_lower_char_def)

theorem issue_priority_from_labels_witness:
  "get_repository_issues (sample_env (Some ''t'') (issues_provider sample_labelled_page))
     ''o'' ''r'' [] =
   (Inr [sample_issue_summary ''7'' ''high'' [JStr ''low'', JStr ''Priority: HIGH''],
         sample_issue_summary ''8'' ''low'' [JStr ''docs'', JStr ''LOW impact''],
         sample_issue_summary ''9'' ''medium'' [JStr ''docs'']],
    [(''https://api.github.com/repos/o/r/issues'', ''token t'')]) \<and>
   (\<exists>body issue.
      answer (sample_env (Some ''t'') (issues_provider sample_labelled_page)) []
        (GITHUB_API_BASE @ ''/repos/'' @ ''o'' @ ''/'' @ ''r'' @ ''/issues'') =
          Response 200 (Some body) \<and>
      issue \<in> set (take 10 (py_elems body)) \<and>
      issue_summary ''r'' issue =
        Inr (sample_issue_summary ''7'' ''high'' [JStr ''low'', JStr ''Priority: HIGH'']) \<and>
      py_getitem (sample_issue_summary ''7'' ''high'' [JStr ''low'', JStr ''Priority: HIGH''])
        ''priority'' = Inr (JStr (label_priority (set (issue_labels issue))))) \<and>
   label_priority (set (issue_labels
      (sample_issue 7 [(''labels'', JArr [sample_label ''low'', sample_label ''Priority: HIGH''])])))
     = ''high'' \<and>
   label_priority (set (issue_labels
      (sample_issue 8 [(''labels'', JArr [sample_label ''docs'', sample_label ''LOW impact''])])))
     = ''low'' \<and>
   label_priority (set (issue_labels
      (sample_issue 9 [(''labels'', JArr [sample_label ''docs''])])))
     = ''medium''"
  using sample_labelled_run
    issue_priority_from_labels [OF sample_labelled_run,
      of "sample_issue_summary ''7'' ''high'' [JStr ''low'', JStr ''Priority: HIGH'']"]
    sample_label_priorities
  by simp

theorem issue_list_excludes_pull_requests_witness:
  "get_repository_issues (sample_env (Some ''t'') (issues_provider sample_issues_page))
     ''o'' ''r'' [] =
   (Inr [sample_issue_summary ''2'' ''medium'' [], sample_issue_summary ''3'' ''medium'' [],
         sample_issue_summary ''4'' ''medium'' [], sample_issue_summary ''5'' ''medium'' [],
         sample_issue_summary ''6'' ''medium'' [], sample_issue_summary ''7'' ''medium'' [],
         sample_issue_summary ''8'' ''medium'' [], sample_issue_summary ''9'' ''medium'' [],
         sample_issue_summary ''10'' ''medium'' []],
    [(''https://api.github.com/repos/o/r/issues'', ''token t'')]) \<and>
   pull_request_marker (sample_issue 1 [(''pull_request'', JObj [])]) \<and>
   \<not> pull_request_marker (sample_issue_summary ''2'' ''medium'' []) \<and>
   (\<exists>body issue.
      answer (sample_env (Some ''t'') (issues_provider sample_issues_page)) []
        (GITHUB_API_BASE @ ''/repos/'' @ ''o'' @ ''/'' @ ''r'' @ ''/issues'') =
          Response 200 (Some body) \<and>
      issue \<in> set (take 10 (py_elems body)) \<and>
      \<not> pull_request_marker issue \<and>
      issue_summary ''r'' issue = Inr (sample_issue_summary ''2'' ''medium'' []))"
  using sample_issues_run
    issue_list_excludes_pull_requests [OF sample_issues_run,
      of "sample_issue_summary ''2'' ''medium'' []"]
  by (simp add: pull_request_marker_def sample_issue_def)

lemma sample_issues_answer:
  "answer (sample_env (Some ''t'') (issues_provider sample_issues_page)) []
     (GITHUB_API_BASE @ ''/repos/'' @ ''o'' @ ''/'' @ ''r'' @ ''/issues'') =
   Response 200 (Some sample_issues_page)"
  by (simp add: answer_def sample_env_def issues_provider_def routes_def GITHUB_API_BASE_def)

theorem issue_filter_after_truncation_witness:
  "get_repository_issues (sample_env (Some ''t'') (issues_provider sample_issues_page))
     ''o'' ''r'' [] =
   (Inr [sample_issue_summary ''2'' ''medium'' [], sample_issue_summary ''3'' ''medium'' [],
         sample_issue_summary ''4'' ''medium'' [], sample_issue_summary ''5'' ''medium'' [],
         sample_issue_summary ''6'' ''medium'' [], sample_issue_summary ''7'' ''medium'' [],
         sample_issue_summary ''8'' ''medium'' [], sample_issue_summary ''9'' ''medium'' [],
         sample_issue_summary ''10'' ''medium'' []],
    [(''https://api.github.com/repos/o/r/issues'', ''token t'')]) \<and>
   answer (sample_env (Some ''t'') (issues_provider sample_issues_page)) []
     (GITHUB_API_BASE @ ''/repos/'' @ ''o'' @ ''/'' @ ''r'' @ ''/issues'') =
   Response 200 (Some sample_issues_page) \<and>
   length (filter not_pull_request (py_elems sample_issues_page)) = 11 \<and>
   (\<exists>issue\<in>set (take 10 (py_elems sample_issues_page)). \<not> not_pull_request issue) \<and>
   map Inr [sample_issue_summary ''2'' ''medium'' [], sample_issue_summary ''3'' ''medium'' [],
         sample_issue_summary ''4'' ''medium'' [], sample_issue_summary ''5'' ''medium'' [],
         sample_issue_summary ''6'' ''medium'' [], sample_issue_summary ''7'' ''medium'' [],
         sample_issue_summary ''8'' ''medium'' [], sample_issue_summary ''9'' ''medium'' [],
         sample_issue_summary ''10'' ''medium'' []] =
     map (issue_summary ''r'')
       (filter not_pull_request (take 10 (py_elems sample_issues_page))) \<and>
   length [sample_issue_summary ''2'' ''medium'' [], sample_issue_summary ''3'' ''medium'' [],
         sample_issue_summary ''4'' ''medium'' [], sample_issue_summary ''5'' ''medium'' [],
         sample_issue_summary ''6'' ''medium'' [], sample_issue_summary ''7'' ''medium'' [],
         sample_issue_summary ''8'' ''medium'' [], sample_issue_summary ''9'' ''medium'' [],
         sample_issue_summary ''10'' ''medium'' []] < 10"
proof -
  have elems: "py_elems sample_issues_page =
     [sample_issue 1 [(''pull_request'', JObj [])], sample_issue 2 [], sample_issue 3 [],
      sample_issue 4 [], sample_issue 5 [], sample_issue 6 [], sample_issue 7 [],
      sample_issue 8 [], sample_issue 9 [], sample_issue 10 [], sample_issue 11 [],
      sample_issue 12 []]"
    by (simp add: py_elems_def sample_issues_page_def)
  have genuine: "length (filter not_pull_request (py_elems sample_issues_page)) = 11"
    by (simp add: elems not_pull_request_def sample_issue_in)
  have pr: "\<exists>issue\<in>set (take 10 (py_elems sample_issues_page)). \<not> not_pull_request issue"
    by (simp add: elems not_pull_request_def sample_issue_in)
  from issue_filter_after_truncation [OF sample_issues_run sample_issues_answer]
    sample_issues_run sample_issues_answer genuine pr
  show ?thesis by simp
qed

section \<open>The loops over the first ten entries\<close>

lemma commits_loop_result:
  "commits_loop e organization repo_name acc commits log = (Inr out, log') \<Longrightarrow>
   \<exists>ys. out = acc @ ys \<and> length ys = length commits \<and>
        (\<forall>i<length commits.
           commit_result repo_name (commits ! i)
             (fetched_detail e organization repo_name (length log + i) (commits ! i)) (ys ! i))"
proof (induction commits arbitrary: acc log)
  case Nil
  then show ?case by (simp add: return_io_def)
next
  case (Cons commit commits)
  let ?req = "detail_request e organization repo_name commit"
  from Cons.prems obtain s where
    s: "commit_result repo_name commit (upstream e (length log) ?req) s"
    and loop: "commits_loop e organization repo_name (acc @ [s]) commits (log @ [?req])
                 = (Inr out, log')"
    by (auto simp: bind_io_def lift_io_def client_get_def response_json_def commit_result_def
          detail_request_def
        split: sum.splits http_result.splits if_splits option.splits prod.splits)
  from Cons.IH [OF loop] obtain ys where ys: "out = (acc @ [s]) @ ys" "length ys = length commits"
    and rest: "\<forall>i<length commits.
           commit_result repo_name (commits ! i)
             (fetched_detail e organization repo_name (length (log @ [?req]) + i) (commits ! i))
             (ys ! i)"
    by blast
  have "\<forall>i<length (commit # commits).
           commit_result repo_name ((commit # commits) ! i)
             (fetched_detail e organization repo_name (length log + i) ((commit # commits) ! i))
             ((s # ys) ! i)"
  proof (intro allI impI)
    fix i
    assume i: "i < length (commit # commits)"
    show "commit_result repo_name ((commit # commits) ! i)
             (fetched_detail e organization repo_name (length log + i) ((commit # commits) ! i))
             ((s # ys) ! i)"
    proof (cases i)
      case 0
      with s show ?thesis by (simp add: fetched_detail_def)
    next
      case (Suc j)
      with i rest show ?thesis by simp
    qed
  qed
  with ys show ?case by force
qed

lemma prs_loop_result:
  "prs_loop repo_name acc prs = Inr out \<Longrightarrow>
   \<exists>ys. out = acc @ ys \<and> map (pull_request_summary repo_name) prs = map Inr ys"
proof (induction prs arbitrary: acc)
  case Nil
  then show ?case by simp
next
  case (Cons pr prs)
  from Cons.prems obtain s where s: "pull_request_summary repo_name pr = Inr s"
    and loop: "prs_loop repo_name (acc @ [s]) prs = Inr out"
    by (auto simp: bind_e_eq_Inr)
  from Cons.IH [OF loop] obtain ys where "out = (acc @ [s]) @ ys"
    "map (pull_request_summary repo_name) prs = map Inr ys" by blast
  with s have "out = acc @ (s # ys) \<and>
    map (pull_request_summary repo_name) (pr # prs) = map Inr (s # ys)" by simp
  then show ?case by blast
qed

lemma user_repos_result:
  "user_repos username all_repos = Inr out \<Longrightarrow>
   map user_repo_summary (filter (owned_by username) all_repos) = map Inr out"
proof (induction all_repos arbitrary: out)
  case Nil
  then show ?case by simp
next
  case (Cons repo all_repos)
  from Cons.prems obtain login where
    login: "getitem_e (py_getitem repo ''owner'') ''login'' = Inr login"
    and rest: "(if login = JStr username
                then bind_e (user_repo_summary repo) (\<lambda>s.
                     bind_e (user_repos username all_repos) (\<lambda>rest. Inr (s # rest)))
                else user_repos username all_repos) = Inr out"
    by (auto simp: bind_e_eq_Inr)
  show ?case
  proof (cases "login = JStr username")
    case True
    with rest obtain s ys where "user_repo_summary repo = Inr s"
      "user_repos username all_repos = Inr ys" "out = s # ys"
      by (auto simp: bind_e_eq_Inr)
    with Cons.IH [of ys] True login show ?thesis by (simp add: owned_by_def)
  next
    case False
    with rest have "user_repos username all_repos = Inr out" by simp
    with Cons.IH [of out] False login show ?thesis by (simp add: owned_by_def)
  qed
qed

section \<open>What the upstream functions return\<close>

lemma get_repository_commits_result:
  assumes "get_repository_commits e organization repo_name log = (Inr out, log')"
  shows "(\<exists>sc b. answer e log (GITHUB_API_BASE @ ''/repos/'' @ organization @ ''/'' @ repo_name
                         @ ''/commits'') = Response sc b \<and> sc \<noteq> 200 \<and> out = []) \<or>
         (\<exists>body. answer e log (GITHUB_API_BASE @ ''/repos/'' @ organization @ ''/'' @ repo_name
                         @ ''/commits'') = Response 200 (Some body) \<and>
                 length out = length (take 10 (py_elems body)) \<and>
                 (\<forall>i<length out.
                    commit_result repo_name (take 10 (py_elems body) ! i)
                      (fetched_detail e organization repo_name (Suc (length log) + i)
                         (take 10 (py_elems body) ! i))
                      (out ! i)))"
proof -
  let ?url = "GITHUB_API_BASE @ ''/repos/'' @ organization @ ''/'' @ repo_name @ ''/commits''"
  from assms have "(\<exists>sc b. answer e log ?url = Response sc b \<and> sc \<noteq> 200 \<and> out = []) \<or>
         (\<exists>body. answer e log ?url = Response 200 (Some body) \<and>
                 commits_loop e organization repo_name [] (take 10 (py_elems body))
                   (log @ [(?url, authorization e)]) = (Inr out, log'))"
    by (auto simp: get_repository_commits_def bind_io_def lift_io_def return_io_def client_get_def
        answer_def response_json_def bind_e_eq_Inr
      split: http_result.splits if_splits option.splits sum.splits prod.splits
      dest: slice_iter_elems)
  then show ?thesis
  proof
    assume "\<exists>sc b. answer e log ?url = Response sc b \<and> sc \<noteq> 200 \<and> out = []"
    then show ?thesis by blast
  next
    assume "\<exists>body. answer e log ?url = Response 200 (Some body) \<and>
                 commits_loop e organization repo_name [] (take 10 (py_elems body))
                   (log @ [(?url, authorization e)]) = (Inr out, log')"
    then obtain body where body: "answer e log ?url = Response 200 (Some body)"
      and loop: "commits_loop e organization repo_name [] (take 10 (py_elems body))
                   (log @ [(?url, authorization e)]) = (Inr out, log')" by blast
    from commits_loop_result [OF loop]
    have "length out = length (take 10 (py_elems body)) \<and>
          (\<forall>i<length out.
                    commit_result repo_name (take 10 (py_elems body) ! i)
                      (fetched_detail e organization repo_name (Suc (length log) + i)
                         (take 10 (py_elems body) ! i))
                      (out ! i))"
      by auto
    with body show ?thesis by blast
  qed
qed

lemma get_repository_pull_requests_result:
  assumes "get_repository_pull_requests e organization repo_name log = (Inr out, log')"
  shows "(\<exists>sc b. answer e log (GITHUB_API_BASE @ ''/repos/'' @ organization @ ''/'' @ repo_name
                         @ ''/pulls'') = Response sc b \<and> sc \<noteq> 200 \<and> out = []) \<or>
         (\<exists>body. answer e log (GITHUB_API_BASE @ ''/repos/'' @ organization @ ''/'' @ repo_name
                         @ ''/pulls'') = Response 200 (Some body) \<and>
                 map (pull_request_summary repo_name) (take 10 (py_elems body)) = map Inr out)"
proof -
  let ?url = "GITHUB_API_BASE @ ''/repos/'' @ organization @ ''/'' @ repo_name @ ''/pulls''"
  from assms have "(\<exists>sc b. answer e log ?url = Response sc b \<and> sc \<noteq> 200 \<and> out = []) \<or>
         (\<exists>body. answer e log ?url = Response 200 (Some body) \<and>
                 prs_loop repo_name [] (take 10 (py_elems body)) = Inr out)"
    by (auto simp: get_repository_pull_requests_def bind_io_def lift_io_def return_io_def
        client_get_def answer_def response_json_def bind_e_eq_Inr
      split: http_result.splits if_splits option.splits sum.splits prod.splits
      dest: slice_iter_elems)
  then show ?thesis
    using prs_loop_result [of repo_name "[]" _ out] by fastforce
qed

lemma get_user_repositories_result:
  assumes "get_user_repositories e username log = (Inr out, log')"
  shows "(\<exists>sc b. answer e log (GITHUB_API_BASE @ ''/user/repos'') = Response sc b \<and>
                sc \<noteq> 200 \<and> out = []) \<or>
         (\<exists>body. answer e log (GITHUB_API_BASE @ ''/user/repos'') = Response 200 (Some body) \<and>
                 map user_repo_summary (filter (owned_by username) (py_elems body)) = map Inr out)"
proof -
  let ?url = "GITHUB_API_BASE @ ''/user/repos''"
  from assms have "(\<exists>sc b. answer e log ?url = Response sc b \<and> sc \<noteq> 200 \<and> out = []) \<or>
         (\<exists>body. answer e log ?url = Response 200 (Some body) \<and>
                 user_repos username (py_elems body) = Inr out)"
    by (auto simp: get_user_repositories_def bind_io_def lift_io_def return_io_def
        client_get_def answer_def response_json_def bind_e_eq_Inr py_elems_def
      split: http_result.splits if_splits option.splits sum.splits prod.splits)
  then show ?thesis
    using user_repos_result [of username _ out] by fastforce
qed

section \<open>What the handlers return\<close>

lemma client_get_log:
  "client_get e url log = (r, log') \<Longrightarrow> log' = log @ [(url, authorization e)]"
  by (auto simp: client_get_def split: http_result.splits)

lemma get_user_data_log:
  "get_user_data e username log = (Inr v, log') \<Longrightarrow>
   log' = log @ [(GITHUB_API_BASE @ ''/users/'' @ username, authorization e)]"
  by (auto simp: get_user_data_def bind_io_def lift_io_def return_io_def client_get_def
      split: http_result.splits if_splits sum.splits prod.splits)

lemma get_repository_data_fallback:
  assumes "answer e log (GITHUB_API_BASE @ ''/repos/'' @ organization @ ''/'' @ repo_name)
             = Response status_code body"
    and "status_code \<noteq> 200"
  shows "get_repository_data e organization repo_name log =
           (Inr (JObj [(''name'', JStr repo_name), (''description'', JStr ''Repository not found'')]),
            log @ [(GITHUB_API_BASE @ ''/repos/'' @ organization @ ''/'' @ repo_name,
                    authorization e)])"
  using assms
  by (simp add: get_repository_data_def bind_io_def return_io_def client_get_def answer_def)

text \<open>
  A handler behind the token check returns the configuration error, or the body of an
  exception, or the bundle of what its upstream functions returned.
\<close>

lemma get_user_repository_detailed_result:
  "fst (get_user_repository_detailed e username repo_name log) = config_error \<or>
   (\<exists>x. fst (get_user_repository_detailed e username repo_name log) =
          JObj [(''error'', JStr (exc_message e x))]) \<or>
   (\<exists>repo_data l1 commits_data l2 prs_data l3 issues_data l4 stats.
      get_repository_data e username repo_name log = (Inr repo_data, l1) \<and>
      get_repository_commits e username repo_name l1 = (Inr commits_data, l2) \<and>
      get_repository_pull_requests e username repo_name l2 = (Inr prs_data, l3) \<and>
      get_repository_issues e username repo_name l3 = (Inr issues_data, l4) \<and>
      get_user_repository_detailed e username repo_name log =
        (JObj [(''repository'', repo_data), (''commits'', JArr commits_data),
               (''pullRequests'', JArr prs_data), (''issues'', JArr issues_data),
               (''stats'', stats)], l4))"
  by (auto simp: get_user_repository_detailed_def try_except_def bind_io_def lift_io_def
        py_dict_def len_json_def
      split: sum.splits prod.splits)

lemma get_github_data_result:
  assumes "org = (case org_param of None \<Rightarrow> ''microsoft'' | Some v \<Rightarrow> v)"
    and "repo = (case repo_param of None \<Rightarrow> ''vscode'' | Some v \<Rightarrow> v)"
  shows "fst (get_github_data e org_param repo_param log) = config_error \<or>
   (\<exists>x. fst (get_github_data e org_param repo_param log) =
          JObj [(''error'', JStr (exc_message e x))]) \<or>
   (\<exists>org_data l0 repo_data l1 commits_data l2 prs_data l3 issues_data l4 stats.
      get_organization_data e org log = (Inr org_data, l0) \<and>
      get_repository_data e org repo l0 = (Inr repo_data, l1) \<and>
      get_repository_commits e org repo l1 = (Inr commits_data, l2) \<and>
      get_repository_pull_requests e org repo l2 = (Inr prs_data, l3) \<and>
      get_repository_issues e org repo l3 = (Inr issues_data, l4) \<and>
      get_github_data e org_param repo_param log =
        (JObj [(''organization'', org_data), (''repository'', repo_data),
               (''commits'', JArr commits_data), (''pullRequests'', JArr prs_data),
               (''issues'', JArr issues_data), (''stats'', stats)], l4))"
  unfolding assms
  by (auto simp: get_github_data_def try_except_def bind_io_def lift_io_def
        py_dict_def len_json_def Let_def
      split: sum.splits prod.splits)

lemma get_user_repositories_detailed_result:
  "fst (get_user_repositories_detailed e username log) = config_error \<or>
   (\<exists>x. fst (get_user_repositories_detailed e username log) =
          JObj [(''error'', JStr (exc_message e x))]) \<or>
   (\<exists>user_data l1 repositories_data l2 private public langs stars forks.
      get_user_data e username log = (Inr user_data, l1) \<and>
      get_user_repositories e username l1 = (Inr repositories_data, l2) \<and>
      get_user_repositories_detailed e username log =
        (JObj [(''user'', user_data), (''repositories'', JArr repositories_data),
               (''total_repos'', JInt (int (length repositories_data))),
               (''private_repos'', private), (''public_repos'', public),
               (''languages'', langs), (''total_stars'', stars), (''total_forks'', forks)], l2))"
  by (auto simp: get_user_repositories_detailed_def try_except_def bind_io_def lift_io_def
        py_dict_def len_json_def
      split: sum.splits prod.splits)


section \<open>The length of the lists\<close>

lemma commits_at_most_ten:
  "get_repository_commits e organization repo_name log = (Inr out, log') \<Longrightarrow> length out \<le> 10"
  using get_repository_commits_result [of e organization repo_name log out log'] by auto

lemma pull_requests_at_most_ten:
  assumes "get_repository_pull_requests e organization repo_name log = (Inr out, log')"
  shows "length out \<le> 10"
proof -
  from get_repository_pull_requests_result [OF assms]
  consider "out = []"
    | body where "map (pull_request_summary repo_name) (take 10 (py_elems body)) = map Inr out"
    by blast
  then show ?thesis
  proof cases
    case 1
    then show ?thesis by simp
  next
    case 2
    then have "length out = length (take 10 (py_elems body))" by (metis length_map)
    then show ?thesis by simp
  qed
qed

lemma issues_at_most_ten:
  assumes "get_repository_issues e organization repo_name log = (Inr out, log')"
  shows "length out \<le> 10"
proof -
  from get_repository_issues_result [OF assms]
  consider "out = []"
    | body where "map (issue_summary repo_name)
        (filter not_pull_request (take 10 (py_elems body))) = map Inr out"
    by blast
  then show ?thesis
  proof cases
    case 1
    then show ?thesis by simp
  next
    case 2
    then have "length out = length (filter not_pull_request (take 10 (py_elems body)))"
      by (metis length_map)
    moreover have "length (filter not_pull_request (take 10 (py_elems body))) \<le>
      length (take 10 (py_elems body))" by (rule length_filter_le)
    ultimately show ?thesis by simp
  qed
qed

text \<open>
  C5. Every list of commits, pull requests or issues returned to a caller has at most ten
  elements: the lists that the three upstream functions return, and the lists under the
  keys \<^verbatim>\<open>commits\<close>, \<^verbatim>\<open>pullRequests\<close> and \<^verbatim>\<open>issues\<close> in the bodies of the two handlers
  that return a repository bundle.
\<close>

theorem lists_at_most_ten:
  "(get_repository_commits e organization repo_name log = (Inr commits, log1) \<longrightarrow>
      length commits \<le> 10) \<and>
   (get_repository_pull_requests e organization repo_name log = (Inr prs, log2) \<longrightarrow>
      length prs \<le> 10) \<and>
   (get_repository_issues e organization repo_name log = (Inr issues, log3) \<longrightarrow>
      length issues \<le> 10) \<and>
   (k \<in> {''commits'', ''pullRequests'', ''issues''} \<and>
    py_getitem (fst (get_github_data e org_param repo_param log)) k = Inr (JArr xs) \<longrightarrow>
      length xs \<le> 10) \<and>
   (k \<in> {''commits'', ''pullRequests'', ''issues''} \<and>
    py_getitem (fst (get_user_repository_detailed e username repo_name log)) k = Inr (JArr xs) \<longrightarrow>
      length xs \<le> 10)"
proof -
  have a: "length xs \<le> 10"
    if k: "k \<in> {''commits'', ''pullRequests'', ''issues''}"
      and xs: "py_getitem (fst (get_github_data e org_param repo_param log)) k = Inr (JArr xs)"
  proof -
    from get_github_data_result [OF refl refl, of e org_param repo_param log] xs k
    show ?thesis
      by (auto simp: config_error_def
          dest: commits_at_most_ten pull_requests_at_most_ten issues_at_most_ten)
  qed
  have b: "length xs \<le> 10"
    if k: "k \<in> {''commits'', ''pullRequests'', ''issues''}"
      and xs: "py_getitem (fst (get_user_repository_detailed e username repo_name log)) k
                 = Inr (JArr xs)"
  proof -
    from get_user_repository_detailed_result [of e username repo_name log] xs k
    show ?thesis
      by (auto simp: config_error_def
          dest: commits_at_most_ten pull_requests_at_most_ten issues_at_most_ten)
  qed
  from a b show ?thesis
    using commits_at_most_ten pull_requests_at_most_ten issues_at_most_ten by blast
qed

section \<open>The repositories of a user\<close>

text \<open>
  C9. The repositories that \<^verbatim>\<open>get_user_repositories\<close> returns are, in order, the entries
  for exactly those repositories of the upstream list whose owner login equals the
  requested username. In the body of \<^verbatim>\<open>get_user_repositories_detailed\<close> the field
  \<^verbatim>\<open>total_repos\<close> is the length of the list under \<^verbatim>\<open>repositories\<close>, and that list is the
  one that \<^verbatim>\<open>get_user_repositories\<close> returned after the profile request.
\<close>

theorem user_repositories_filtered_by_owner:
  "(get_user_repositories e username log = (Inr repos, log') \<and>
    answer e log (GITHUB_API_BASE @ ''/user/repos'') = Response 200 (Some body) \<longrightarrow>
      map Inr repos = map user_repo_summary (filter (owned_by username) (py_elems body))) \<and>
   (py_getitem (fst (get_user_repositories_detailed e username log)) ''repositories''
      = Inr (JArr listed) \<longrightarrow>
      py_getitem (fst (get_user_repositories_detailed e username log)) ''total_repos''
        = Inr (JInt (int (length listed))) \<and>
      (\<exists>log''. get_user_repositories e username
                 (log @ [(GITHUB_API_BASE @ ''/users/'' @ username, authorization e)])
               = (Inr listed, log'')))"
proof -
  have a: "map Inr repos = map user_repo_summary (filter (owned_by username) (py_elems body))"
    if "get_user_repositories e username log = (Inr repos, log')"
      and "answer e log (GITHUB_API_BASE @ ''/user/repos'') = Response 200 (Some body)"
    using get_user_repositories_result [OF that(1)] that(2) by auto
  have b: "py_getitem (fst (get_user_repositories_detailed e username log)) ''total_repos''
        = Inr (JInt (int (length listed))) \<and>
      (\<exists>log''. get_user_repositories e username
                 (log @ [(GITHUB_API_BASE @ ''/users/'' @ username, authorization e)])
               = (Inr listed, log''))"
    if "py_getitem (fst (get_user_repositories_detailed e username log)) ''repositories''
      = Inr (JArr listed)"
    using get_user_repositories_detailed_result [of e username log] that
    by (auto simp: config_error_def dest: get_user_data_log)
  from a b show ?thesis by blast
qed

section \<open>The placeholder repository\<close>

text \<open>
  C8. When the provider answers the request for the repository details with a status
  other than 200, \<^verbatim>\<open>get_repository_data\<close> returns the placeholder
  \<^verbatim>\<open>{"name": repo_name, "description": "Repository not found"}\<close> and does not raise, and
  the request does not fail for it: once the fetches of the commits, the pull requests
  and the issues have returned and the contributors are counted, each of the two bundle
  handlers returns the bundle with the placeholder as its repository.
\<close>

theorem repository_placeholder_on_failure:
  assumes "\<not> token_missing e"
    and "answer e log (GITHUB_API_BASE @ ''/repos/'' @ organization @ ''/'' @ repo_name)
           = Response status_code body"
    and "status_code \<noteq> 200"
    and "get_repository_commits e organization repo_name
           (log @ [(GITHUB_API_BASE @ ''/repos/'' @ organization @ ''/'' @ repo_name,
                    authorization e)]) = (Inr commits_data, l2)"
    and "get_repository_pull_requests e organization repo_name l2 = (Inr prs_data, l3)"
    and "get_repository_issues e organization repo_name l3 = (Inr issues_data, l4)"
    and "active_contributors commits_data = Inr contributors"
  shows "get_repository_data e organization repo_name log =
           (Inr (JObj [(''name'', JStr repo_name),
                       (''description'', JStr ''Repository not found'')]),
            log @ [(GITHUB_API_BASE @ ''/repos/'' @ organization @ ''/'' @ repo_name,
                    authorization e)]) \<and>
         get_user_repository_detailed e organization repo_name log =
           (JObj [(''repository'', JObj [(''name'', JStr repo_name),
                                         (''description'', JStr ''Repository not found'')]),
                  (''commits'', JArr commits_data),
                  (''pullRequests'', JArr prs_data),
                  (''issues'', JArr issues_data),
                  (''stats'', JObj [(''totalCommits'', JInt (int (length commits_data))),
                                    (''totalPRs'', JInt (int (length prs_data))),
                                    (''totalIssues'', JInt (int (length issues_data))),
                                    (''activeContributors'', contributors)])], l4) \<and>
         (get_organization_data e organization log0 = (Inr org_data, log) \<longrightarrow>
          get_github_data e (Some organization) (Some repo_name) log0 =
           (JObj [(''organization'', org_data),
                  (''repository'', JObj [(''name'', JStr repo_name),
                                         (''description'', JStr ''Repository not found'')]),
                  (''commits'', JArr commits_data),
                  (''pullRequests'', JArr prs_data),
                  (''issues'', JArr issues_data),
                  (''stats'', JObj [(''totalCommits'', JInt (int (length commits_data))),
                                    (''totalPRs'', JInt (int (length prs_data))),
                                    (''totalIssues'', JInt (int (length issues_data))),
                                    (''activeContributors'', contributors),
                                    (''repositoriesCount'', JInt 1)])], l4))"
proof -
  note repo = get_repository_data_fallback [OF assms(2,3)]
  have user: "get_user_repository_detailed e organization repo_name log =
           (JObj [(''repository'', JObj [(''name'', JStr repo_name),
                                         (''description'', JStr ''Repository not found'')]),
                  (''commits'', JArr commits_data),
                  (''pullRequests'', JArr prs_data),
                  (''issues'', JArr issues_data),
                  (''stats'', JObj [(''totalCommits'', JInt (int (length commits_data))),
                                    (''totalPRs'', JInt (int (length prs_data))),
                                    (''totalIssues'', JInt (int (length issues_data))),
                                    (''activeContributors'', contributors)])], l4)"
    using assms(1,4-7) repo
    by (simp add: get_user_repository_detailed_def try_except_def bind_io_def lift_io_def
        py_dict_def len_json_def)
  have data: "get_github_data e (Some organization) (Some repo_name) log0 =
           (JObj [(''organization'', org_data),
                  (''repository'', JObj [(''name'', JStr repo_name),
                                         (''description'', JStr ''Repository not found'')]),
                  (''commits'', JArr commits_data),
                  (''pullRequests'', JArr prs_data),
                  (''issues'', JArr issues_data),
                  (''stats'', JObj [(''totalCommits'', JInt (int (length commits_data))),
                                    (''totalPRs'', JInt (int (length prs_data))),
                                    (''totalIssues'', JInt (int (length issues_data))),
                                    (''activeContributors'', contributors),
                                    (''repositoriesCount'', JInt 1)])], l4)"
    if "get_organization_data e organization log0 = (Inr org_data, log)"
    using assms(1,4-7) repo that
    by (simp add: get_github_data_def try_except_def bind_io_def lift_io_def
        py_dict_def len_json_def)
  from repo user data show ?thesis by blast
qed


section \<open>Upstream failures\<close>


section \<open>The extended fields of a commit\<close>

lemma commit_summary_avatar:
  assumes "commit_summary repo_name commit detail = Inr s"
  shows "py_getitem s ''author_avatar'' = commit_author_avatar commit"
proof (cases detail)
  case None
  with assms have d: "commit_summary repo_name commit None = Inr s" by simp
  show ?thesis
    by (rule py_dict_field [OF d [unfolded commit_summary.simps]]) simp
next
  case (Some commit_detail)
  with assms have d: "commit_summary repo_name commit (Some commit_detail) = Inr s" by simp
  show ?thesis
    by (rule py_dict_field [OF d [unfolded commit_summary.simps]]) simp
qed

lemma commit_summary_fallback_zero:
  assumes "commit_summary repo_name commit None = Inr s"
  shows "py_getitem s ''files_changed'' = Inr (JInt 0) \<and>
         py_getitem s ''additions'' = Inr (JInt 0) \<and>
         py_getitem s ''deletions'' = Inr (JInt 0)"
  by (simp add: py_dict_field [OF assms [unfolded commit_summary.simps]])

text \<open>
  C7, as amended. In a list that \<^verbatim>\<open>get_repository_commits\<close> returned, the \<open>i\<close>-th
  summary belongs to the \<open>i\<close>-th of the first ten upstream commits, none is dropped, and
  no detail request failed in transport. Its \<^verbatim>\<open>author_avatar\<close> is that of the commit's own
  list entry, whatever the detail request returned. When the detail request was answered
  with status 200 it is the summary computed with the detail; when it was answered with
  any other status it is the fallback summary, whose \<^verbatim>\<open>files_changed\<close>, \<^verbatim>\<open>additions\<close> and
  \<^verbatim>\<open>deletions\<close> are 0. Such an answer does not stop the loop: it appends the fallback
  summary and goes on with the next commit.
\<close>

theorem commit_extended_fields:
  "(get_repository_commits e organization repo_name log = (Inr detailed_commits, log') \<and>
    i < length detailed_commits \<longrightarrow>
      (\<exists>body commit.
         answer e log (GITHUB_API_BASE @ ''/repos/'' @ organization @ ''/'' @ repo_name
           @ ''/commits'') = Response 200 (Some body) \<and>
         length detailed_commits = length (take 10 (py_elems body)) \<and>
         commit = take 10 (py_elems body) ! i \<and>
         py_getitem (detailed_commits ! i) ''author_avatar'' = commit_author_avatar commit \<and>
         (case fetched_detail e organization repo_name (Suc (length log) + i) commit of
            Transport_failure \<Rightarrow> False
          | Response status_code detail_body \<Rightarrow>
              if status_code = 200
              then \<exists>commit_detail. detail_body = Some commit_detail \<and>
                     commit_summary repo_name commit (Some commit_detail)
                       = Inr (detailed_commits ! i)
              else commit_summary repo_name commit None = Inr (detailed_commits ! i) \<and>
                   py_getitem (detailed_commits ! i) ''files_changed'' = Inr (JInt 0) \<and>
                   py_getitem (detailed_commits ! i) ''additions'' = Inr (JInt 0) \<and>
                   py_getitem (detailed_commits ! i) ''deletions'' = Inr (JInt 0)))) \<and>
   (py_getitem commit' ''sha'' = Inr sha \<and>
    answer e log1 (GITHUB_API_BASE @ ''/repos/'' @ organization @ ''/'' @ repo_name
      @ ''/commits/'' @ py_str sha) = Response status_code' detail_body' \<and>
    status_code' \<noteq> 200 \<and>
    commit_summary repo_name commit' None = Inr s \<longrightarrow>
      commits_loop e organization repo_name acc (commit' # commits) log1 =
      commits_loop e organization repo_name (acc @ [s]) commits
        (log1 @ [(GITHUB_API_BASE @ ''/repos/'' @ organization @ ''/'' @ repo_name
                    @ ''/commits/'' @ py_str sha, authorization e)]))"
proof -
  have a: "\<exists>body commit.
         answer e log (GITHUB_API_BASE @ ''/repos/'' @ organization @ ''/'' @ repo_name
           @ ''/commits'') = Response 200 (Some body) \<and>
         length detailed_commits = length (take 10 (py_elems body)) \<and>
         commit = take 10 (py_elems body) ! i \<and>
         py_getitem (detailed_commits ! i) ''author_avatar'' = commit_author_avatar commit \<and>
         (case fetched_detail e organization repo_name (Suc (length log) + i) commit of
            Transport_failure \<Rightarrow> False
          | Response status_code detail_body \<Rightarrow>
              if status_code = 200
              then \<exists>commit_detail. detail_body = Some commit_detail \<and>
                     commit_summary repo_name commit (Some commit_detail)
                       = Inr (detailed_commits ! i)
              else commit_summary repo_name commit None = Inr (detailed_commits ! i) \<and>
                   py_getitem (detailed_commits ! i) ''files_changed'' = Inr (JInt 0) \<and>
                   py_getitem (detailed_commits ! i) ''additions'' = Inr (JInt 0) \<and>
                   py_getitem (detailed_commits ! i) ''deletions'' = Inr (JInt 0))"
    if ret: "get_repository_commits e organization repo_name log = (Inr detailed_commits, log')"
      and i: "i < length detailed_commits"
  proof -
    from get_repository_commits_result [OF ret] i
    obtain body where body: "answer e log (GITHUB_API_BASE @ ''/repos/'' @ organization @ ''/''
        @ repo_name @ ''/commits'') = Response 200 (Some body)"
      and len: "length detailed_commits = length (take 10 (py_elems body))"
      and res: "commit_result repo_name (take 10 (py_elems body) ! i)
                  (fetched_detail e organization repo_name (Suc (length log) + i)
                     (take 10 (py_elems body) ! i))
                  (detailed_commits ! i)"
      by auto
    let ?c = "take 10 (py_elems body) ! i"
    let ?s = "detailed_commits ! i"
    let ?d = "fetched_detail e organization repo_name (Suc (length log) + i) ?c"
    from res obtain detail where sum: "commit_summary repo_name ?c detail = Inr ?s"
      by (auto simp: commit_result_def split: http_result.splits if_splits option.splits)
    have avatar: "py_getitem ?s ''author_avatar'' = commit_author_avatar ?c"
      using commit_summary_avatar [OF sum] .
    have "case ?d of
            Transport_failure \<Rightarrow> False
          | Response status_code detail_body \<Rightarrow>
              if status_code = 200
              then \<exists>commit_detail. detail_body = Some commit_detail \<and>
                     commit_summary repo_name ?c (Some commit_detail) = Inr ?s
              else commit_summary repo_name ?c None = Inr ?s \<and>
                   py_getitem ?s ''files_changed'' = Inr (JInt 0) \<and>
                   py_getitem ?s ''additions'' = Inr (JInt 0) \<and>
                   py_getitem ?s ''deletions'' = Inr (JInt 0)"
      using res commit_summary_fallback_zero [of repo_name ?c ?s]
      by (auto simp: commit_result_def split: http_result.splits if_splits option.splits)
    with body len avatar show ?thesis by blast
  qed
  have b: "commits_loop e organization repo_name acc (commit' # commits) log1 =
      commits_loop e organization repo_name (acc @ [s]) commits
        (log1 @ [(GITHUB_API_BASE @ ''/repos/'' @ organization @ ''/'' @ repo_name
                    @ ''/commits/'' @ py_str sha, authorization e)])"
    if "py_getitem commit' ''sha'' = Inr sha"
      and "answer e log1 (GITHUB_API_BASE @ ''/repos/'' @ organization @ ''/'' @ repo_name
        @ ''/commits/'' @ py_str sha) = Response status_code' detail_body'"
      and "status_code' \<noteq> 200"
      and "commit_summary repo_name commit' None = Inr s"
    using that
    by (simp add: bind_io_def lift_io_def client_get_def answer_def)
  from a b show ?thesis by blast
qed


section \<open>Runs of the sample service\<close>

lemma sample_env_simps:
  "upstream (sample_env token provider) = provider"
  "authorization (sample_env (Some t) provider) = ''token '' @ t"
  "token_missing (sample_env (Some t) provider) = (t = [])"
  "exc_message (sample_env token provider) x = ''upstream error''"
  "set_order (sample_env token provider) xs = xs"
  by (simp_all add: sample_env_def authorization_def token_missing_def)

lemma sample_service_simps:
  "upstream sample_service n r = sample_provider n r"
  "authorization sample_service = ''token t''"
  "\<not> token_missing sample_service"
  "exc_message sample_service x = ''upstream error''"
  "set_order sample_service xs = xs"
  by (simp_all add: sample_service_def sample_env_def authorization_def token_missing_def)

lemma sample_commits_run:
  "get_repository_commits sample_service ''o'' ''r'' log =
     (Inr sample_commit_summaries, log @ sample_commit_requests)"
  by (simp add: get_repository_commits_def io_defs translator_defs sample_defs
        sample_service_simps sample_provider_def sample_commits_page_def sample_detail_def
        sample_commit_summaries_def sample_commit_requests_def)


lemma sample_pull_run:
  "pull_request_summary ''r'' (sample_issue n []) =
     Inr (sample_pull_request_summary (py_str_int n))"
  by (simp add: translator_defs sample_defs)

lemma sample_pulls_run:
  "get_repository_pull_requests sample_service ''o'' ''r'' log =
     (Inr sample_pull_summaries, log @ [(''https://api.github.com/repos/o/r/pulls'', ''token t'')])"
  by (simp add: get_repository_pull_requests_def io_defs routes_def sample_service_simps
        sample_provider_def sample_pulls_page_def sample_pull_summaries_def sample_pull_run
        py_str_int_def dec_digits.simps)

lemma sample_service_issues_run:
  "get_repository_issues sample_service ''o'' ''r'' log =
     (Inr sample_issue_summaries,
      log @ [(''https://api.github.com/repos/o/r/issues'', ''token t'')])"
  by (simp add: get_repository_issues_def io_defs routes_def sample_service_simps
        sample_provider_def sample_issues_page_def sample_issue_summaries_def sample_issue_run
        sample_issue_in py_str_int_def dec_digits.simps)

lemma sample_repos_run:
  "get_user_repositories sample_service ''alice'' log =
     (Inr [sample_repo_summary ''alice'' ''x'', sample_repo_summary ''alice'' ''z''],
      log @ [(''https://api.github.com/user/repos'', ''token t'')])"
  by (simp add: get_user_repositories_def io_defs translator_defs sample_defs
        sample_service_simps sample_provider_def sample_repos_page_def)

lemma sample_repository_run:
  "get_repository_data sample_service ''o'' ''r'' log =
     (Inr (JObj [(''name'', JStr ''r''), (''description'', JStr ''Repository not found'')]),
      log @ [(''https://api.github.com/repos/o/r'', ''token t'')])"
  by (simp add: get_repository_data_def io_defs routes_def sample_service_simps
        sample_provider_def)

lemma sample_contributors:
  "active_contributors sample_commit_summaries = Inr (JInt 1)"
  by (simp add: active_contributors_def py_set_def sample_commit_summaries_def
        sample_commit_summary_def)

lemma sample_lengths:
  "length sample_commit_summaries = 10"
  "length sample_pull_summaries = 10"
  "length sample_issue_summaries = 9"
  by (simp_all add: sample_commit_summaries_def sample_pull_summaries_def
        sample_issue_summaries_def)

lemma sample_bundle_run:
  "get_user_repository_detailed sample_service ''o'' ''r'' log =
     (JObj (sample_bundle @
        [(''stats'', JObj [(''totalCommits'', JInt 10), (''totalPRs'', JInt 10),
                           (''totalIssues'', JInt 9), (''activeContributors'', JInt 1)])]),
      log @ sample_bundle_requests)"
  by (simp add: get_user_repository_detailed_def try_except_def bind_io_def lift_io_def
        py_dict_def len_json_def sample_service_simps sample_repository_run sample_commits_run
        sample_pulls_run sample_service_issues_run sample_contributors sample_bundle_def
        sample_bundle_requests_def sample_lengths)

lemma sample_data_run:
  "get_github_data sample_service (Some ''o'') (Some ''r'') log =
     (JObj ((''organization'', JObj [(''name'', JStr ''o''),
                                     (''description'', JStr ''o Organization'')]) #
            sample_bundle @
        [(''stats'', JObj [(''totalCommits'', JInt 10), (''totalPRs'', JInt 10),
                           (''totalIssues'', JInt 9), (''activeContributors'', JInt 1),
                           (''repositoriesCount'', JInt 1)])]),
      log @ (''https://api.github.com/orgs/o'', ''token t'') # sample_bundle_requests)"
  by (simp add: get_github_data_def get_organization_data_def try_except_def io_defs routes_def
        sample_provider_def Let_def
        py_dict_def len_json_def sample_service_simps sample_repository_run sample_commits_run
        sample_pulls_run sample_service_issues_run sample_contributors sample_bundle_def
        sample_bundle_requests_def sample_lengths)

lemma sample_repositories_run:
  "get_user_repositories_detailed sample_service ''alice'' log =
     (JObj [(''user'', JObj [(''username'', JStr ''alice''), (''name'', JStr ''alice'')]),
            (''repositories'',
               JArr [sample_repo_summary ''alice'' ''x'', sample_repo_summary ''alice'' ''z'']),
            (''total_repos'', JInt 2), (''private_repos'', JInt 0), (''public_repos'', JInt 2),
            (''languages'', JArr []), (''total_stars'', JInt 6), (''total_forks'', JInt 2)],
      log @ [(''https://api.github.com/users/alice'', ''token t''),
             (''https://api.github.com/user/repos'', ''token t'')])"
  by (simp add: get_user_repositories_detailed_def get_user_data_def try_except_def io_defs
        routes_def sample_provider_def py_dict_def len_json_def sample_service_simps
        sample_repos_run count_private_def languages_def total_of_def py_set_def
        sample_repo_summary_def)

lemma one_commit_run:
  "get_repository_commits (sample_env (Some ''t'') one_commit_provider) ''o'' ''r'' [] =
     (Inr [sample_commit_summary ''2000000'' 0 0 0 (JStr ''https://a/alice.png'')],
      [(''https://api.github.com/repos/o/r/commits'', ''token t''),
       (''https://api.github.com/repos/o/r/commits/2000000a'', ''token t'')])"
  by (simp add: get_repository_commits_def io_defs authorization_def translator_defs
        sample_defs one_commit_provider_def)


section \<open>Witnesses\<close>

theorem lists_at_most_ten_witness:
  "length (py_elems sample_commits_page) = 12 \<and>
   get_repository_commits sample_service ''o'' ''r'' [] =
     (Inr sample_commit_summaries, sample_commit_requests) \<and>
   length sample_commit_summaries \<le> 10 \<and>
   get_repository_pull_requests sample_service ''o'' ''r'' [] =
     (Inr sample_pull_summaries, [(''https://api.github.com/repos/o/r/pulls'', ''token t'')]) \<and>
   length sample_pull_summaries \<le> 10 \<and>
   get_repository_issues sample_service ''o'' ''r'' [] =
     (Inr sample_issue_summaries, [(''https://api.github.com/repos/o/r/issues'', ''token t'')]) \<and>
   length sample_issue_summaries \<le> 10 \<and>
   py_getitem (fst (get_github_data sample_service (Some ''o'') (Some ''r'') [])) ''commits''
     = Inr (JArr sample_commit_summaries) \<and>
   py_getitem (fst (get_user_repository_detailed sample_service ''o'' ''r'' [])) ''commits''
     = Inr (JArr sample_commit_summaries)"
  using lists_at_most_ten [where e = sample_service and organization = "''o''"
      and repo_name = "''r''" and log = "[]" and commits = sample_commit_summaries
      and ?log1.0 = sample_commit_requests and prs = sample_pull_summaries
      and ?log2.0 = "[(''https://api.github.com/repos/o/r/pulls'', ''token t'')]"
      and issues = sample_issue_summaries
      and ?log3.0 = "[(''https://api.github.com/repos/o/r/issues'', ''token t'')]"
      and k = "''commits''" and org_param = "Some ''o''" and repo_param = "Some ''r''"
      and xs = sample_commit_summaries and username = "''o''"]
  by (simp add: sample_commits_run sample_pulls_run sample_service_issues_run sample_data_run
        sample_bundle_run sample_bundle_def py_elems_def sample_commits_page_def)

theorem user_repositories_filtered_by_owner_witness:
  "get_user_repositories sample_service ''alice'' [] =
     (Inr [sample_repo_summary ''alice'' ''x'', sample_repo_summary ''alice'' ''z''],
      [(''https://api.github.com/user/repos'', ''token t'')]) \<and>
   answer sample_service [] (GITHUB_API_BASE @ ''/user/repos'') =
     Response 200 (Some sample_repos_page) \<and>
   py_elems sample_repos_page =
     [sample_repo ''alice'' ''x'', sample_repo ''bob'' ''y'', sample_repo ''alice'' ''z''] \<and>
   filter (owned_by ''alice'') (py_elems sample_repos_page) =
     [sample_repo ''alice'' ''x'', sample_repo ''alice'' ''z''] \<and>
   map Inr [sample_repo_summary ''alice'' ''x'', sample_repo_summary ''alice'' ''z''] =
     map user_repo_summary (filter (owned_by ''alice'') (py_elems sample_repos_page)) \<and>
   py_getitem (fst (get_user_repositories_detailed sample_service ''alice'' [])) ''repositories''
     = Inr (JArr [sample_repo_summary ''alice'' ''x'', sample_repo_summary ''alice'' ''z'']) \<and>
   py_getitem (fst (get_user_repositories_detailed sample_service ''alice'' [])) ''total_repos''
     = Inr (JInt 2)"
proof -
  have run: "get_user_repositories sample_service ''alice'' [] =
     (Inr [sample_repo_summary ''alice'' ''x'', sample_repo_summary ''alice'' ''z''],
      [(''https://api.github.com/user/repos'', ''token t'')])"
    using sample_repos_run [of "[]"] by simp
  have ans: "answer sample_service [] (GITHUB_API_BASE @ ''/user/repos'') =
     Response 200 (Some sample_repos_page)"
    by (simp add: answer_def sample_service_simps sample_provider_def routes_def
        GITHUB_API_BASE_def)
  have elems: "py_elems sample_repos_page =
     [sample_repo ''alice'' ''x'', sample_repo ''bob'' ''y'', sample_repo ''alice'' ''z'']"
    by (simp add: py_elems_def sample_repos_page_def)
  have owned: "filter (owned_by ''alice'') (py_elems sample_repos_page) =
     [sample_repo ''alice'' ''x'', sample_repo ''alice'' ''z'']"
    by (simp add: elems owned_by_def getitem_e_def sample_repo_def)
  have listed: "py_getitem (fst (get_user_repositories_detailed sample_service ''alice'' []))
     ''repositories''
     = Inr (JArr [sample_repo_summary ''alice'' ''x'', sample_repo_summary ''alice'' ''z''])"
    by (simp add: sample_repositories_run)
  from user_repositories_filtered_by_owner [where e = sample_service and username = "''alice''"
      and log = "[]"
      and repos = "[sample_repo_summary ''alice'' ''x'', sample_repo_summary ''alice'' ''z'']"
      and log' = "[(''https://api.github.com/user/repos'', ''token t'')]"
      and body = sample_repos_page
      and listed = "[sample_repo_summary ''alice'' ''x'', sample_repo_summary ''alice'' ''z'']"]
    run ans elems owned listed
  show ?thesis by simp
qed

theorem repository_placeholder_on_failure_witness:
  "\<not> token_missing sample_service \<and>
   answer sample_service [(''https://api.github.com/orgs/o'', ''token t'')]
     (GITHUB_API_BASE @ ''/repos/'' @ ''o'' @ ''/'' @ ''r'') = Response 404 None \<and>
   get_repository_data sample_service ''o'' ''r'' [(''https://api.github.com/orgs/o'', ''token t'')]
     = (Inr (JObj [(''name'', JStr ''r''), (''description'', JStr ''Repository not found'')]),
        [(''https://api.github.com/orgs/o'', ''token t'')] @
        [(GITHUB_API_BASE @ ''/repos/'' @ ''o'' @ ''/'' @ ''r'', authorization sample_service)]) \<and>
   fst (get_user_repository_detailed sample_service ''o'' ''r''
          [(''https://api.github.com/orgs/o'', ''token t'')]) =
     JObj [(''repository'', JObj [(''name'', JStr ''r''),
                                  (''description'', JStr ''Repository not found'')]),
           (''commits'', JArr sample_commit_summaries),
           (''pullRequests'', JArr sample_pull_summaries),
           (''issues'', JArr sample_issue_summaries),
           (''stats'', JObj [(''totalCommits'', JInt (int (length sample_commit_summaries))),
                             (''totalPRs'', JInt (int (length sample_pull_summaries))),
                             (''totalIssues'', JInt (int (length sample_issue_summaries))),
                             (''activeContributors'', JInt 1)])] \<and>
   fst (get_github_data sample_service (Some ''o'') (Some ''r'') []) =
     JObj [(''organization'', JObj [(''name'', JStr ''o''),
                                    (''description'', JStr ''o Organization'')]),
           (''repository'', JObj [(''name'', JStr ''r''),
                                  (''description'', JStr ''Repository not found'')]),
           (''commits'', JArr sample_commit_summaries),
           (''pullRequests'', JArr sample_pull_summaries),
           (''issues'', JArr sample_issue_summaries),
           (''stats'', JObj [(''totalCommits'', JInt (int (length sample_commit_summaries))),
                             (''totalPRs'', JInt (int (length sample_pull_summaries))),
                             (''totalIssues'', JInt (int (length sample_issue_summaries))),
                             (''activeContributors'', JInt 1),
                             (''repositoriesCount'', JInt 1)])]"
proof -
  let ?log = "[(''https://api.github.com/orgs/o'', ''token t'')]"
  let ?l1 = "?log @ [(GITHUB_API_BASE @ ''/repos/'' @ ''o'' @ ''/'' @ ''r'',
                      authorization sample_service)]"
  have tok: "\<not> token_missing sample_service" by (simp add: sample_service_simps)
  have ans: "answer sample_service ?log (GITHUB_API_BASE @ ''/repos/'' @ ''o'' @ ''/'' @ ''r'')
     = Response 404 None"
    by (simp add: answer_def sample_service_simps sample_provider_def routes_def
        GITHUB_API_BASE_def)
  have st: "(404::int) \<noteq> 200" by simp
  have org: "get_organization_data sample_service ''o'' [] =
     (Inr (JObj [(''name'', JStr ''o''), (''description'', JStr ''o Organization'')]), ?log)"
    by (simp add: get_organization_data_def io_defs routes_def sample_provider_def
        sample_service_simps)
  from repository_placeholder_on_failure [OF tok ans st sample_commits_run sample_pulls_run
      sample_service_issues_run sample_contributors, of "[]"
      "JObj [(''name'', JStr ''o''), (''description'', JStr ''o Organization'')]"] org tok ans
  show ?thesis by simp
qed



text \<open>
  C7 as stated fails for the avatar: the detail request of the commit is answered with
  status 404, and the summary still carries the avatar of the author.
\<close>

theorem avatar_without_detail:
  "get_repository_commits (sample_env (Some ''t'') one_commit_provider) ''o'' ''r'' [] =
     (Inr [sample_commit_summary ''2000000'' 0 0 0 (JStr ''https://a/alice.png'')],
      [(''https://api.github.com/repos/o/r/commits'', ''token t''),
       (''https://api.github.com/repos/o/r/commits/2000000a'', ''token t'')]) \<and>
   fetched_detail (sample_env (Some ''t'') one_commit_provider) ''o'' ''r'' 1
     (sample_commit ''2000000a'' [(''author'', sample_user)]) = Response 404 None \<and>
   py_getitem (sample_commit_summary ''2000000'' 0 0 0 (JStr ''https://a/alice.png''))
     ''author_avatar'' = Inr (JStr ''https://a/alice.png'')"
proof -
  have detail: "fetched_detail (sample_env (Some ''t'') one_commit_provider) ''o'' ''r'' 1
     (sample_commit ''2000000a'' [(''author'', sample_user)]) = Response 404 None"
    by (simp add: fetched_detail_def detail_request_def sample_env_simps one_commit_provider_def
        routes_def sample_commit_def GITHUB_API_BASE_def py_str_def)
  have avatar: "py_getitem (sample_commit_summary ''2000000'' 0 0 0 (JStr ''https://a/alice.png''))
     ''author_avatar'' = Inr (JStr ''https://a/alice.png'')"
    by (simp add: sample_commit_summary_def)
  from one_commit_run detail avatar show ?thesis by blast
qed


theorem commit_extended_fields_witness:
  "get_repository_commits sample_service ''o'' ''r'' [] =
     (Inr sample_commit_summaries, sample_commit_requests) \<and>
   (1::nat) < length sample_commit_summaries \<and>
   take 10 (py_elems sample_commits_page) ! 1 =
     sample_commit ''2000000a'' [(''author'', sample_user)] \<and>
   fetched_detail sample_service ''o'' ''r'' (Suc (length ([] :: request list)) + 1)
     (sample_commit ''2000000a'' [(''author'', sample_user)]) = Response 404 None \<and>
   commit_summary ''r'' (sample_commit ''2000000a'' [(''author'', sample_user)]) None
     = Inr (sample_commit_summaries ! 1) \<and>
   py_getitem (sample_commit_summaries ! 1) ''files_changed'' = Inr (JInt 0) \<and>
   py_getitem (sample_commit_summaries ! 1) ''additions'' = Inr (JInt 0) \<and>
   py_getitem (sample_commit_summaries ! 1) ''deletions'' = Inr (JInt 0) \<and>
   py_getitem (sample_commit_summaries ! 1) ''author_avatar''
     = commit_author_avatar (sample_commit ''2000000a'' [(''author'', sample_user)]) \<and>
   commit_author_avatar (sample_commit ''2000000a'' [(''author'', sample_user)])
     = Inr (JStr ''https://a/alice.png'') \<and>
   py_getitem (sample_commit ''3000000a'' []) ''sha'' = Inr (JStr ''3000000a'') \<and>
   answer sample_service []
     (GITHUB_API_BASE @ ''/repos/'' @ ''o'' @ ''/'' @ ''r'' @ ''/commits/''
        @ py_str (JStr ''3000000a'')) = Response 404 None \<and>
   commit_summary ''r'' (sample_commit ''3000000a'' []) None
     = Inr (sample_commit_summary ''3000000'' 0 0 0 JNull) \<and>
   commits_loop sample_service ''o'' ''r'' [] [sample_commit ''3000000a'' []] [] =
     (Inr [sample_commit_summary ''3000000'' 0 0 0 JNull],
      [(''https://api.github.com/repos/o/r/commits/3000000a'', ''token t'')])"
proof -
  let ?c = "sample_commit ''2000000a'' [(''author'', sample_user)]"
  let ?s = "sample_commit_summaries ! 1"
  have run: "get_repository_commits sample_service ''o'' ''r'' [] =
     (Inr sample_commit_summaries, sample_commit_requests)"
    using sample_commits_run [of "[]"] by simp
  have i: "(1::nat) < length sample_commit_summaries" by (simp add: sample_lengths)
  have ans: "answer sample_service []
      (GITHUB_API_BASE @ ''/repos/'' @ ''o'' @ ''/'' @ ''r'' @ ''/commits'')
      = Response 200 (Some sample_commits_page)"
    by (simp add: answer_def sample_service_simps sample_provider_def routes_def
        GITHUB_API_BASE_def)
  have second: "take 10 (py_elems sample_commits_page) ! 1 = ?c"
    by (simp add: py_elems_def sample_commits_page_def)
  have det: "fetched_detail sample_service ''o'' ''r'' (Suc (length ([] :: request list)) + 1) ?c
      = Response 404 None"
    by (simp add: fetched_detail_def detail_request_def sample_service_simps sample_provider_def
        routes_def sample_commit_def GITHUB_API_BASE_def py_str_def)
  have avatar: "commit_author_avatar ?c = Inr (JStr ''https://a/alice.png'')"
    by (simp add: commit_author_avatar_def getitem_e_def sample_commit_def sample_user_def)
  note t = commit_extended_fields [where e = sample_service and organization = "''o''"
      and repo_name = "''r''"]
  from t [where log = "[]" and detailed_commits = sample_commit_summaries
      and log' = sample_commit_requests and i = 1] run i
  obtain body commit where body: "answer sample_service []
        (GITHUB_API_BASE @ ''/repos/'' @ ''o'' @ ''/'' @ ''r'' @ ''/commits'')
        = Response 200 (Some body)"
    and commit: "commit = take 10 (py_elems body) ! 1"
    and av: "py_getitem ?s ''author_avatar'' = commit_author_avatar commit"
    and cases: "case fetched_detail sample_service ''o'' ''r''
                       (Suc (length ([] :: request list)) + 1) commit of
            Transport_failure \<Rightarrow> False
          | Response status_code detail_body \<Rightarrow>
              if status_code = 200
              then \<exists>commit_detail. detail_body = Some commit_detail \<and>
                     commit_summary ''r'' commit (Some commit_detail) = Inr ?s
              else commit_summary ''r'' commit None = Inr ?s \<and>
                   py_getitem ?s ''files_changed'' = Inr (JInt 0) \<and>
                   py_getitem ?s ''additions'' = Inr (JInt 0) \<and>
                   py_getitem ?s ''deletions'' = Inr (JInt 0)"
    by blast
  from body ans have "body = sample_commits_page" by simp
  with commit second have c: "commit = ?c" by simp
  from cases have zero: "commit_summary ''r'' ?c None = Inr ?s \<and>
                   py_getitem ?s ''files_changed'' = Inr (JInt 0) \<and>
                   py_getitem ?s ''additions'' = Inr (JInt 0) \<and>
                   py_getitem ?s ''deletions'' = Inr (JInt 0)"
    unfolding c det by simp
  have sha: "py_getitem (sample_commit ''3000000a'' []) ''sha'' = Inr (JStr ''3000000a'')"
    by (simp add: sample_commit_def)
  have ans3: "answer sample_service []
     (GITHUB_API_BASE @ ''/repos/'' @ ''o'' @ ''/'' @ ''r'' @ ''/commits/''
        @ py_str (JStr ''3000000a'')) = Response 404 None"
    by (simp add: answer_def sample_service_simps sample_provider_def routes_def
        GITHUB_API_BASE_def py_str_def)
  have sum3: "commit_summary ''r'' (sample_commit ''3000000a'' []) None
     = Inr (sample_commit_summary ''3000000'' 0 0 0 JNull)"
    by (simp add: translator_defs sample_defs)
  have st: "(404::int) \<noteq> 200" by simp
  from t [where commit' = "sample_commit ''3000000a'' []" and sha = "JStr ''3000000a''"
      and ?log1.0 = "[]" and status_code' = 404 and detail_body' = None
      and s = "sample_commit_summary ''3000000'' 0 0 0 JNull" and acc = "[]" and commits = "[]"]
    sha ans3 st sum3
  have loop: "commits_loop sample_service ''o'' ''r'' [] [sample_commit ''3000000a'' []] [] =
     (Inr [sample_commit_summary ''3000000'' 0 0 0 JNull],
      [(''https://api.github.com/repos/o/r/commits/3000000a'', ''token t'')])"
    by (simp add: return_io_def sample_service_simps GITHUB_API_BASE_def py_str_def)
  from run i second det zero av c avatar sha ans3 sum3 loop show ?thesis by simp
qed

section \<open>Missing optional fields\<close>

lemma map_of_without:
  "map_of (filter (\<lambda>kv. fst kv \<notin> set ks) kvs) k = (if k \<in> set ks then None else map_of kvs k)"
  by (induction kvs) auto

lemma without_object:
  "without ks (JObj kvs) = JObj (filter (\<lambda>kv. fst kv \<notin> set ks) kvs)"
  by (simp add: without_def)

lemma py_getitem_without:
  "k \<notin> set ks \<Longrightarrow> py_getitem (without ks v) k = py_getitem v k"
  by (cases v) (simp_all add: without_def map_of_without)

lemma py_get_without:
  "py_get (without ks (JObj kvs)) k d = (if k \<in> set ks then Inr d else py_get (JObj kvs) k d)"
  by (simp add: without_object map_of_without)

lemma returns_if: "returns (if c then Inr d else m) = (c \<or> returns m)"
  by simp

lemma field_list_without:
  "field_list (without ks (JObj kvs)) field k =
     (if field \<in> set ks then Inr (JArr []) else field_list (JObj kvs) field k)"
  by (simp add: field_list_def without_object map_of_without)

lemma any_issue_label_without:
  "any_issue_label w (without ks (JObj kvs)) =
     (if ''labels'' \<in> set ks then Inr False else any_issue_label w (JObj kvs))"
  by (simp add: any_issue_label_def without_object map_of_without)

lemma issue_priority_without:
  "issue_priority (without ks (JObj kvs)) =
     (if ''labels'' \<in> set ks then Inr ''medium'' else issue_priority (JObj kvs))"
  by (simp add: issue_priority_def any_issue_label_without cong: if_cong)

lemma issue_milestone_without:
  "issue_milestone (without ks (JObj kvs)) =
     (if ''milestone'' \<in> set ks then Inr JNull else issue_milestone (JObj kvs))"
  by (simp add: issue_milestone_def without_object map_of_without)

lemma issue_reaction_without:
  "issue_reaction (without ks (JObj kvs)) k =
     (if ''reactions'' \<in> set ks then Inr (JInt 0) else issue_reaction (JObj kvs) k)"
  by (simp add: issue_reaction_def without_object map_of_without)

lemma commit_author_avatar_without:
  "commit_author_avatar (without ks (JObj kvs)) =
     (if ''author'' \<in> set ks then Inr JNull else commit_author_avatar (JObj kvs))"
  by (simp add: commit_author_avatar_def without_object map_of_without getitem_e_def)

lemma files_changed_without:
  "bind_e (py_get (without ks (JObj kvs)) ''files'' (JArr [])) py_len =
     (if ''files'' \<in> set ks then Inr (JInt 0)
      else bind_e (py_get (JObj kvs) ''files'' (JArr [])) py_len)"
  by (simp add: without_object map_of_without)

lemma detail_sum_without:
  "detail_sum (without ks (JObj kvs)) k =
     (if ''files'' \<in> set ks then Inr (JInt 0) else detail_sum (JObj kvs) k)"
  by (simp add: detail_sum_def without_object map_of_without)

text \<open>
  Without some fields, a part of a summary that read one of them has its default, and a
  part that returned still returns.
\<close>

lemma py_get_default:
  "k \<in> set ks \<Longrightarrow> py_get (without ks (JObj kvs)) k d = Inr d"
  by (simp add: py_get_without)

lemma py_get_returns: "returns (py_get (without ks (JObj kvs)) k d)"
  by (simp add: py_get_without)

lemma field_list_default:
  "field \<in> set ks \<Longrightarrow> field_list (without ks (JObj kvs)) field k = Inr (JArr [])"
  by (simp add: field_list_without)

lemma field_list_returns:
  "returns (field_list (JObj kvs) field k) \<Longrightarrow>
   returns (field_list (without ks (JObj kvs)) field k)"
  by (simp add: field_list_without)

lemma issue_priority_default:
  "''labels'' \<in> set ks \<Longrightarrow> issue_priority (without ks (JObj kvs)) = Inr ''medium''"
  by (simp add: issue_priority_without)

lemma issue_priority_returns:
  "returns (issue_priority (JObj kvs)) \<Longrightarrow> returns (issue_priority (without ks (JObj kvs)))"
  by (simp add: issue_priority_without)

lemma issue_milestone_default:
  "''milestone'' \<in> set ks \<Longrightarrow> issue_milestone (without ks (JObj kvs)) = Inr JNull"
  by (simp add: issue_milestone_without)

lemma issue_milestone_returns:
  "returns (issue_milestone (JObj kvs)) \<Longrightarrow> returns (issue_milestone (without ks (JObj kvs)))"
  by (simp add: issue_milestone_without)

lemma issue_reaction_default:
  "''reactions'' \<in> set ks \<Longrightarrow> issue_reaction (without ks (JObj kvs)) k = Inr (JInt 0)"
  by (simp add: issue_reaction_without)

lemma issue_reaction_returns:
  "returns (issue_reaction (JObj kvs) k) \<Longrightarrow>
   returns (issue_reaction (without ks (JObj kvs)) k)"
  by (simp add: issue_reaction_without)

lemma commit_author_avatar_default:
  "''author'' \<in> set ks \<Longrightarrow> commit_author_avatar (without ks (JObj kvs)) = Inr JNull"
  by (simp add: commit_author_avatar_without)

lemma commit_author_avatar_returns:
  "returns (commit_author_avatar (JObj kvs)) \<Longrightarrow>
   returns (commit_author_avatar (without ks (JObj kvs)))"
  by (simp add: commit_author_avatar_without)

lemma files_changed_default:
  "''files'' \<in> set ks \<Longrightarrow>
   bind_e (py_get (without ks (JObj kvs)) ''files'' (JArr [])) py_len = Inr (JInt 0)"
  by (simp add: files_changed_without)

lemma files_changed_returns:
  "returns (bind_e (py_get (JObj kvs) ''files'' (JArr [])) py_len) \<Longrightarrow>
   returns (bind_e (py_get (without ks (JObj kvs)) ''files'' (JArr [])) py_len)"
  by (simp add: files_changed_without del: py_get.simps)

lemma detail_sum_default:
  "''files'' \<in> set ks \<Longrightarrow> detail_sum (without ks (JObj kvs)) k = Inr (JInt 0)"
  by (simp add: detail_sum_without)

lemma detail_sum_returns:
  "returns (detail_sum (JObj kvs) k) \<Longrightarrow> returns (detail_sum (without ks (JObj kvs)) k)"
  by (simp add: detail_sum_without)

lemmas without_defaults =
  py_get_default field_list_default issue_priority_default issue_milestone_default
  issue_reaction_default commit_author_avatar_default files_changed_default detail_sum_default

lemmas without_returns =
  py_getitem_without py_get_returns field_list_returns issue_priority_returns
  issue_milestone_returns issue_reaction_returns commit_author_avatar_returns
  files_changed_returns detail_sum_returns

lemma repository_tolerates:
  assumes "returns (repository_summary repo)" and "set ks \<subseteq> set (map fst repository_optional)"
  shows "\<exists>s. repository_summary (without ks repo) = Inr s \<and> has_defaults repository_optional ks s"
proof -
  from assms(1) obtain kvs where repo: "repo = JObj kvs"
    by (cases repo) (simp_all add: repository_summary_def py_dict_returns)
  have req: "''name'' \<notin> set ks" "''stargazers_count'' \<notin> set ks" "''forks_count'' \<notin> set ks"
    "''html_url'' \<notin> set ks" "''updated_at'' \<notin> set ks"
    using assms(2) by (auto simp: repository_optional_def)
  have "returns (repository_summary (without ks repo))"
    using assms(1) req unfolding repo
    by (simp add: repository_summary_def py_dict_returns without_returns
        del: py_get.simps split del: if_split)
  then obtain s where s: "repository_summary (without ks repo) = Inr s"
    by (auto simp: returns_iff)
  have "has_defaults repository_optional ks s"
    unfolding has_defaults_def repository_optional_def
    by (simp add: py_dict_field [OF s [unfolded repository_summary_def]] repo without_defaults
        del: py_get.simps split del: if_split)
  with s show ?thesis by blast
qed

lemma user_repo_tolerates:
  assumes "returns (user_repo_summary repo)" and "set ks \<subseteq> set (map fst repository_optional)"
  shows "\<exists>s. user_repo_summary (without ks repo) = Inr s \<and> has_defaults repository_optional ks s"
proof -
  from assms(1) obtain kvs where repo: "repo = JObj kvs"
    by (cases repo) (simp_all add: user_repo_summary_def py_dict_returns)
  have req: "''id'' \<notin> set ks" "''name'' \<notin> set ks" "''full_name'' \<notin> set ks"
    "''stargazers_count'' \<notin> set ks" "''forks_count'' \<notin> set ks" "''updated_at'' \<notin> set ks"
    "''html_url'' \<notin> set ks" "''private'' \<notin> set ks" "''fork'' \<notin> set ks"
    using assms(2) by (auto simp: repository_optional_def)
  have "returns (user_repo_summary (without ks repo))"
    using assms(1) req unfolding repo
    by (simp add: user_repo_summary_def py_dict_returns without_returns
        del: py_get.simps split del: if_split)
  then obtain s where s: "user_repo_summary (without ks repo) = Inr s"
    by (auto simp: returns_iff)
  have "has_defaults repository_optional ks s"
    unfolding has_defaults_def repository_optional_def
    by (simp add: py_dict_field [OF s [unfolded user_repo_summary_def]] repo without_defaults
        del: py_get.simps split del: if_split)
  with s show ?thesis by blast
qed

lemma user_tolerates:
  assumes "returns (user_summary user)" and "set ks \<subseteq> set (map fst user_optional)"
  shows "\<exists>s. user_summary (without ks user) = Inr s \<and> has_defaults user_optional ks s"
proof -
  from assms(1) obtain kvs where user: "user = JObj kvs"
    by (cases user) (simp_all add: user_summary_def py_dict_returns)
  have req: "''login'' \<notin> set ks"
    using assms(2) by (auto simp: user_optional_def)
  have "returns (user_summary (without ks user))"
    using assms(1) req unfolding user
    by (simp add: user_summary_def py_dict_returns without_returns
        del: py_get.simps split del: if_split)
  then obtain s where s: "user_summary (without ks user) = Inr s"
    by (auto simp: returns_iff)
  have "has_defaults user_optional ks s"
    unfolding has_defaults_def user_optional_def
    by (simp add: py_dict_field [OF s [unfolded user_summary_def]] user without_defaults
        del: py_get.simps split del: if_split)
  with s show ?thesis by blast
qed


lemma pull_request_tolerates:
  assumes "returns (pull_request_summary repo_name pr)"
    and "set ks \<subseteq> set (map fst pull_request_optional)"
  shows "\<exists>s. pull_request_summary repo_name (without ks pr) = Inr s \<and>
             has_defaults pull_request_optional ks s"
proof -
  from assms(1) obtain kvs where pr: "pr = JObj kvs"
    by (cases pr) (simp_all add: pull_request_summary_def py_dict_returns number_str_def)
  have req: "''number'' \<notin> set ks" "''title'' \<notin> set ks" "''user'' \<notin> set ks"
    "''state'' \<notin> set ks" "''html_url'' \<notin> set ks" "''created_at'' \<notin> set ks"
    "''updated_at'' \<notin> set ks"
    using assms(2) by (auto simp: pull_request_optional_def)
  have "returns (pull_request_summary repo_name (without ks pr))"
    using assms(1) req unfolding pr
    by (simp add: pull_request_summary_def py_dict_returns without_returns number_str_def
        getitem_e_def del: py_get.simps split del: if_split)
  then obtain s where s: "pull_request_summary repo_name (without ks pr) = Inr s"
    by (auto simp: returns_iff)
  have "has_defaults pull_request_optional ks s"
    unfolding has_defaults_def pull_request_optional_def
    by (simp add: py_dict_field [OF s [unfolded pull_request_summary_def]] pr without_defaults
        del: py_get.simps split del: if_split)
  with s show ?thesis by blast
qed

lemma issue_tolerates:
  assumes "returns (issue_summary repo_name issue)"
    and "set ks \<subseteq> set (map fst issue_optional)"
  shows "\<exists>s. issue_summary repo_name (without ks issue) = Inr s \<and>
             has_defaults issue_optional ks s"
proof -
  from assms(1) obtain kvs where issue: "issue = JObj kvs"
    by (cases issue)
      (simp_all add: issue_summary_def issue_priority_def any_issue_label_def)
  have req: "''number'' \<notin> set ks" "''title'' \<notin> set ks" "''user'' \<notin> set ks"
    "''state'' \<notin> set ks" "''html_url'' \<notin> set ks" "''created_at'' \<notin> set ks"
    "''updated_at'' \<notin> set ks"
    using assms(2) by (auto simp: issue_optional_def)
  from assms(1) obtain p where p: "issue_priority (JObj kvs) = Inr p"
    unfolding issue issue_summary_def returns_bind_e by blast
  from issue_priority_returns [of kvs ks] p
  obtain p' where p': "issue_priority (without ks (JObj kvs)) = Inr p'"
    by (auto simp: returns_iff)
  have "returns (issue_summary repo_name (without ks issue))"
    using assms(1) req unfolding issue
    by (simp add: issue_summary_def p p' py_dict_returns without_returns number_str_def
        getitem_e_def del: py_get.simps split del: if_split)
  then obtain s where s: "issue_summary repo_name (without ks issue) = Inr s"
    by (auto simp: returns_iff)
  note d = s [unfolded issue issue_summary_def p' bind_e_Inr]
  have reactions: "py_dict
           [(''total_count'', Inr (JInt 0)), (''thumbs_up'', Inr (JInt 0)),
            (''thumbs_down'', Inr (JInt 0)), (''laugh'', Inr (JInt 0)),
            (''hooray'', Inr (JInt 0)), (''confused'', Inr (JInt 0)),
            (''heart'', Inr (JInt 0))] = Inr zero_reactions"
    by (simp add: py_dict_def zero_reactions_def)
  have medium: "p' = ''medium''" if "''labels'' \<in> set ks"
    using that p' by (simp add: issue_priority_default)
  have "has_defaults issue_optional ks s"
    unfolding has_defaults_def issue_optional_def
    by (simp add: py_dict_field [OF d] without_defaults reactions medium
        del: py_get.simps split del: if_split)
  with s show ?thesis by blast
qed

lemma commit_tolerates:
  assumes "returns (commit_summary repo_name commit detail)"
    and "set ks \<subseteq> set (map fst commit_optional)"
    and "set ks' \<subseteq> set (map fst commit_detail_optional)"
  shows "\<exists>s. commit_summary repo_name (without ks commit) (map_option (without ks') detail) = Inr s \<and>
             has_defaults commit_optional ks s \<and>
             (detail \<noteq> None \<longrightarrow> has_defaults commit_detail_optional ks' s)"
proof -
  from assms(1) obtain kvs where commit: "commit = JObj kvs"
    by (cases commit; cases detail)
      (simp_all add: commit_summary.simps py_dict_returns)
  have req: "''sha'' \<notin> set ks" "''commit'' \<notin> set ks" "''html_url'' \<notin> set ks"
    using assms(2) by (auto simp: commit_optional_def)
  show ?thesis
  proof (cases detail)
    case None
    have "returns (commit_summary repo_name (without ks commit) None)"
      using assms(1) req unfolding commit None
      by (simp add: commit_summary.simps py_dict_returns without_returns getitem_e_def
          del: py_get.simps split del: if_split)
    then obtain s where s: "commit_summary repo_name (without ks commit) None = Inr s"
      by (auto simp: returns_iff)
    have "has_defaults commit_optional ks s"
      unfolding has_defaults_def commit_optional_def
      by (simp add: py_dict_field [OF s [unfolded commit_summary.simps]] commit without_defaults
          del: py_get.simps split del: if_split)
    with s None show ?thesis by simp
  next
    case (Some commit_detail)
    from assms(1) obtain dkvs where detail: "commit_detail = JObj dkvs"
      unfolding Some
      by (cases commit_detail) (simp_all add: commit_summary.simps py_dict_returns)
    have "returns (commit_summary repo_name (without ks commit) (Some (without ks' commit_detail)))"
      using assms(1) req unfolding commit Some detail
      by (simp add: commit_summary.simps py_dict_returns without_returns getitem_e_def
          del: py_get.simps split del: if_split)
    then obtain s where
      s: "commit_summary repo_name (without ks commit) (Some (without ks' commit_detail)) = Inr s"
      by (auto simp: returns_iff)
    note d = s [unfolded commit_summary.simps]
    have "has_defaults commit_optional ks s"
      unfolding has_defaults_def commit_optional_def
      by (simp add: py_dict_field [OF d] commit without_defaults
          del: py_get.simps split del: if_split)
    moreover have "has_defaults commit_detail_optional ks' s"
      unfolding has_defaults_def commit_detail_optional_def
      by (simp add: py_dict_field [OF d] detail without_defaults
          del: py_get.simps split del: if_split)
    ultimately show ?thesis using s Some by simp
  qed
qed





end
